theory Spec2Isabelle
  imports Complex_Main
begin

section \<open>JavaScript basics shared by the models\<close>

text \<open>
  Strings are lists of 8-bit code units. An exception is an \<open>Error\<close> object carrying its
  \<open>message\<close>; a computation that can throw returns \<open>jsError + 'a\<close>, with \<open>Inl\<close> the
  thrown error. A collaborator whose answer is outside the program (a model provider, the
  content script, another agent) is a function that also threads a world \<open>'w\<close>, so that two
  calls with the same arguments may answer differently.
\<close>

datatype jsError = Error (message: string)

text \<open>JavaScript truthiness of a value that is a string, \<open>null\<close> or \<open>undefined\<close>.\<close>

fun truthy :: "string option \<Rightarrow> bool" where
  "truthy None = False"
| "truthy (Some s) = (s \<noteq> [])"

text \<open>\<open>Array.prototype.join\<close> on an array of strings.\<close>

fun join :: "string \<Rightarrow> string list \<Rightarrow> string" where
  "join sep [] = []"
| "join sep [x] = x"
| "join sep (x # y # ys) = x @ sep @ join sep (y # ys)"

section \<open>Model Gateway: \<open>LLMBridge.query\<close> (llm/llmBridge.ts)\<close>

text \<open>
  \<open>GenericQueryOptions\<close>: the two fields \<open>query\<close> reads, and every other option
  (model, temperature, maxTokens, systemPrompt, stream) in \<open>opt_rest\<close>, which \<open>query\<close>
  passes on untouched.
\<close>

record 'x queryOptions =
  opt_provider :: "string option"
  opt_fallbackProvider :: "string option"
  opt_rest :: 'x

text \<open>\<open>GenericLLMResponse\<close>; \<open>usage\<close> and \<open>model\<close> are in \<open>resp_rest\<close>.\<close>

record 'y llmResponse =
  resp_text :: string
  resp_error :: "string option"
  resp_provider :: "string option"
  resp_rest :: "'y option"

text \<open>
  An \<open>LLMProvider\<close> is its \<open>query\<close> method: it resolves to a response or throws.
\<close>

type_synonym ('x, 'y, 'w) llmProvider =
  "string \<Rightarrow> 'x queryOptions \<Rightarrow> 'w \<Rightarrow> (jsError + 'y llmResponse) \<times> 'w"

text \<open>
  The fields of \<open>LLMBridge\<close> that \<open>query\<close> reads. \<open>providers\<close> is the \<open>Map\<close> in
  insertion order (its keys are listed in an error message).
\<close>

record ('x, 'y, 'w) llmBridge =
  providers :: "(string \<times> ('x, 'y, 'w) llmProvider) list"
  defaultProviderId :: "string option"
  config_llmProvider :: "string option"

definition providers_get ::
  "('x, 'y, 'w) llmBridge \<Rightarrow> string \<Rightarrow> ('x, 'y, 'w) llmProvider option" where
  "providers_get b k = map_of (providers b) k"

definition providers_has :: "('x, 'y, 'w) llmBridge \<Rightarrow> string \<Rightarrow> bool" where
  "providers_has b k = (providers_get b k \<noteq> None)"

definition providers_keys :: "('x, 'y, 'w) llmBridge \<Rightarrow> string list" where
  "providers_keys b = remdups (map fst (providers b))"

definition externalProviderNames :: "string list" where
  "externalProviderNames = [''openai'', ''mistral'', ''anthropic'']"

text \<open>\<open>options.provider || this.defaultProviderId\<close>.\<close>

definition selectedProviderId ::
  "('x, 'y, 'w) llmBridge \<Rightarrow> 'x queryOptions \<Rightarrow> string option" where
  "selectedProviderId b options =
     (if truthy (opt_provider options) then opt_provider options else defaultProviderId b)"

text \<open>The routing of the external provider names to the \<open>'external'\<close> connector.\<close>

definition routedToExternal :: "('x, 'y, 'w) llmBridge \<Rightarrow> 'x queryOptions \<Rightarrow> bool" where
  "routedToExternal b options =
     (case selectedProviderId b options of
        None \<Rightarrow> False
      | Some t \<Rightarrow> t \<noteq> [] \<and> t \<in> set externalProviderNames \<and> providers_has b ''external'')"

definition targetProviderId ::
  "('x, 'y, 'w) llmBridge \<Rightarrow> 'x queryOptions \<Rightarrow> string option" where
  "targetProviderId b options =
     (if routedToExternal b options then Some ''external'' else selectedProviderId b options)"

text \<open>
  The options as the provider receives them: the routing writes \<open>config.llmProvider\<close> into
  a missing \<open>options.provider\<close>.
\<close>

definition routedOptions ::
  "('x, 'y, 'w) llmBridge \<Rightarrow> 'x queryOptions \<Rightarrow> 'x queryOptions" where
  "routedOptions b options =
     (if routedToExternal b options \<and> \<not> truthy (opt_provider options)
      then options\<lparr>opt_provider := config_llmProvider b\<rparr> else options)"

text \<open>One entry of the log of provider invocations: provider id, prompt, options.\<close>

type_synonym 'x providerCall = "string \<times> string \<times> 'x queryOptions"

definition errorResponse :: "string \<Rightarrow> string option \<Rightarrow> 'y llmResponse" where
  "errorResponse msg p =
     \<lparr>resp_text = [], resp_error = Some msg, resp_provider = p, resp_rest = None\<rparr>"

definition fallbackApplies :: "'x queryOptions \<Rightarrow> string \<Rightarrow> bool" where
  "fallbackApplies options tid =
     (truthy (opt_fallbackProvider options) \<and> opt_fallbackProvider options \<noteq> Some tid)"

text \<open>
  \<open>query\<close> returns the response, the provider invocations it made (in order) and the
  world after them.
\<close>

function query ::
  "('x, 'y, 'w) llmBridge \<Rightarrow> string \<Rightarrow> 'x queryOptions \<Rightarrow> 'w
     \<Rightarrow> 'y llmResponse \<times> 'x providerCall list \<times> 'w" where
  "query b prompt options w =
     (let options' = routedOptions b options in
      case targetProviderId b options of
        None \<Rightarrow> (errorResponse ''No LLM provider available for query.'' None, [], w)
      | Some tid \<Rightarrow>
          if tid = [] then
            (errorResponse ''No LLM provider available for query.'' None, [], w)
          else
            (case providers_get b tid of
               None \<Rightarrow>
                 (errorResponse
                    (''LLM provider '' @ [CHR 0x27] @ tid @ [CHR 0x27] @ '' not found. Available: ''
                       @ join '', '' (providers_keys b)) None, [], w)
             | Some p \<Rightarrow>
                 (case p prompt options' w of
                    (Inr response, w') \<Rightarrow>
                      (response\<lparr>resp_provider := Some tid\<rparr>, [(tid, prompt, options')], w')
                  | (Inl err, w') \<Rightarrow>
                      if fallbackApplies options' tid then
                        (case query b prompt
                                (options'\<lparr>opt_provider := opt_fallbackProvider options',
                                           opt_fallbackProvider := None\<rparr>) w' of
                           (r, calls, w'') \<Rightarrow> (r, (tid, prompt, options') # calls, w''))
                      else
                        (errorResponse
                           (''Error querying provider '' @ tid @ '': ''
                              @ (if message err = [] then ''Unknown error'' else message err))
                           (Some tid),
                         [(tid, prompt, options')], w'))))"
  by pat_completeness auto
termination
proof (relation "measure (\<lambda>(b, prompt, options, w).
                   if truthy (opt_fallbackProvider options) then 1 else 0)")
  show "wf (measure (\<lambda>(b :: ('x, 'y, 'w) llmBridge, prompt :: string,
                       options :: 'x queryOptions, w :: 'w).
                   if truthy (opt_fallbackProvider options) then 1 else 0))"
    by simp
next
  fix b :: "('x, 'y, 'w) llmBridge" and prompt :: string and options :: "'x queryOptions"
    and w :: 'w and options' tid p res w' err
  assume "options' = routedOptions b options"
    and "fallbackApplies options' tid"
  then show "((b, prompt, options'\<lparr>opt_provider := opt_fallbackProvider options',
                 opt_fallbackProvider := None\<rparr>, w'), (b, prompt, options, w))
        \<in> measure (\<lambda>(b, prompt, options, w).
                   if truthy (opt_fallbackProvider options) then 1 else 0)"
    by (simp add: routedOptions_def fallbackApplies_def split: if_splits)
qed

declare query.simps [simp del]

text \<open>Concrete providers and a bridge, used to evaluate \<open>query\<close> on explicit inputs.\<close>

definition failingProvider :: "(unit, unit, unit) llmProvider" where
  "failingProvider prompt options w = (Inl (Error ''connection refused''), w)"

definition answeringProvider :: "string \<Rightarrow> (unit, unit, unit) llmProvider" where
  "answeringProvider t prompt options w =
     (Inr \<lparr>resp_text = t, resp_error = None, resp_provider = None, resp_rest = None\<rparr>, w)"

definition refusingProvider :: "(unit, unit, unit) llmProvider" where
  "refusingProvider prompt options w =
     (Inr \<lparr>resp_text = [], resp_error = Some ''quota exceeded'', resp_provider = None,
           resp_rest = None\<rparr>, w)"

definition demoBridge :: "(unit, unit, unit) llmBridge" where
  "demoBridge =
     \<lparr>providers = [(''ollama'', failingProvider), (''external'', answeringProvider ''ok''),
                   (''local'', refusingProvider)],
      defaultProviderId = Some ''ollama'', config_llmProvider = None\<rparr>"

definition demoOptions :: "string option \<Rightarrow> string option \<Rightarrow> unit queryOptions" where
  "demoOptions p fb = \<lparr>opt_provider = p, opt_fallbackProvider = fb, opt_rest = ()\<rparr>"

section \<open>Values, data points and the content script\<close>

text \<open>
  A JavaScript value. Numbers are an abstract type \<open>'n\<close>: the models never compute with
  them, they only pass them to the platform (\<open>parseFloat\<close>, \<open>isNaN\<close>, \<open>Date\<close>).
  A \<open>Date\<close> object is its time value.
\<close>

datatype 'n jsval =
    JNull
  | JUndefined
  | JBool bool
  | JNum 'n
  | JStr string
  | JArr "'n jsval list"
  | JObj "(string \<times> 'n jsval) list"
  | JDate 'n

text \<open>A data point of an extraction plan, with the fields the agents read.\<close>

record dataPoint =
  dp_id :: string
  dp_description :: string
  dp_type :: string
  isList :: bool
  extractionNotes :: "string option"
  potentialSelectors :: "string list option"

text \<open>
  The content script (content/content-script.js) answers the messages
  \<open>{action: 'testSelector', selector}\<close> and
  \<open>{action: 'extractData', selector, extractionType, attributeName}\<close> with
  \<open>{success, count?, data?, error?}\<close>. \<open>sendMessageToContentScript(tabId, message)\<close>
  resolves to the answer (or to \<open>undefined\<close>, here \<open>None\<close>) or throws.
\<close>

datatype contentMessage =
    TestSelector string
  | ExtractData "string option" "string option" "string option"

record 'n contentReply =
  reply_success :: bool
  reply_count :: "int option"
  reply_data :: "'n jsval list option"
  reply_error :: "string option"

type_synonym ('n, 'w) contentScript =
  "nat \<Rightarrow> contentMessage \<Rightarrow> 'w \<Rightarrow> (jsError + 'n contentReply option) \<times> 'w"

section \<open>Recovery Agent: \<open>ErrorRecoveryAgent\<close> (agents/error-recovery-agent.js)\<close>

record recoveryResult =
  recoverySuccessful :: bool
  alternativeSelectors :: "string list"

text \<open>
  A fallback strategy takes the data point, the failed selector, the error message and
  the truncated HTML sample, and resolves to its alternatives (possibly \<open>null\<close>) or throws.
  The agent holds the list \<open>fallbackStrategies\<close> and \<open>sendMessageToContentScript\<close>.
\<close>

type_synonym 'w recoveryStrategy =
  "dataPoint \<Rightarrow> string \<Rightarrow> string \<Rightarrow> string \<Rightarrow> 'w \<Rightarrow> (jsError + string list option) \<times> 'w"

record ('n, 'w) errorRecoveryAgent =
  fallbackStrategies :: "'w recoveryStrategy list"
  era_sendMessageToContentScript :: "('n, 'w) contentScript"

text \<open>
  One exchange with the content script made by \<open>testSelector\<close>: the selector sent and
  what came back. The functions below return the exchanges they made, in order.
\<close>

type_synonym 'n selectorTest = "string \<times> (jsError + 'n contentReply option)"

text \<open>\<open>response?.success === true && response?.count > 0\<close>, and \<open>false\<close> on a throw.\<close>

fun testVerdict :: "jsError + 'n contentReply option \<Rightarrow> bool" where
  "testVerdict (Inl err) = False"
| "testVerdict (Inr None) = False"
| "testVerdict (Inr (Some response)) =
     (reply_success response \<and> (case reply_count response of None \<Rightarrow> False | Some c \<Rightarrow> c > 0))"

definition testSelector ::
  "('n, 'w) errorRecoveryAgent \<Rightarrow> string \<Rightarrow> nat \<Rightarrow> 'w \<Rightarrow> bool \<times> 'n selectorTest \<times> 'w" where
  "testSelector agent selector tabId w =
     (case era_sendMessageToContentScript agent tabId (TestSelector selector) w of
        (answer, w1) \<Rightarrow> (testVerdict answer, (selector, answer), w1))"

text \<open>The loop \<open>for (const altSelector of alternatives)\<close>.\<close>

fun testAlternatives ::
  "('n, 'w) errorRecoveryAgent \<Rightarrow> nat \<Rightarrow> string list \<Rightarrow> recoveryResult \<Rightarrow> 'w
     \<Rightarrow> recoveryResult \<times> 'n selectorTest list \<times> 'w" where
  "testAlternatives agent tabId [] recoveryResult w = (recoveryResult, [], w)"
| "testAlternatives agent tabId (altSelector # rest) recoveryResult w =
     (case testSelector agent altSelector tabId w of
        (ok, exchange, w1) \<Rightarrow>
          (case testAlternatives agent tabId rest
                  (if ok then
                     recoveryResult\<lparr>recoverySuccessful := True,
                       alternativeSelectors :=
                         (if altSelector \<in> set (alternativeSelectors recoveryResult)
                          then alternativeSelectors recoveryResult
                          else alternativeSelectors recoveryResult @ [altSelector])\<rparr>
                   else recoveryResult) w1 of
             (r, exchanges, w2) \<Rightarrow> (r, exchange # exchanges, w2)))"

text \<open>
  The loop \<open>for (const strategy of this.fallbackStrategies)\<close>: a strategy that throws is
  skipped, and the loop stops after the first strategy that leaves
  \<open>recoverySuccessful\<close> set.
\<close>

fun tryStrategies ::
  "('n, 'w) errorRecoveryAgent \<Rightarrow> 'w recoveryStrategy list \<Rightarrow> dataPoint \<Rightarrow> string \<Rightarrow> string
     \<Rightarrow> string \<Rightarrow> nat \<Rightarrow> recoveryResult \<Rightarrow> 'w \<Rightarrow> recoveryResult \<times> 'n selectorTest list \<times> 'w" where
  "tryStrategies agent [] dataPoint failedSelector errorMessage html tabId recoveryResult w =
     (recoveryResult, [], w)"
| "tryStrategies agent (strategy # rest) dataPoint failedSelector errorMessage html tabId
       recoveryResult w =
     (case strategy dataPoint failedSelector errorMessage html w of
        (Inl strategyError, w1) \<Rightarrow>
          tryStrategies agent rest dataPoint failedSelector errorMessage html tabId
            recoveryResult w1
      | (Inr alternatives, w1) \<Rightarrow>
          (case (case alternatives of
                   None \<Rightarrow> (recoveryResult, [], w1)
                 | Some alts \<Rightarrow>
                     if length alts > 0
                     then testAlternatives agent tabId alts recoveryResult w1
                     else (recoveryResult, [], w1)) of
             (r, exchanges, w2) \<Rightarrow>
               if recoverySuccessful r then (r, exchanges, w2)
               else
                 (case tryStrategies agent rest dataPoint failedSelector errorMessage html
                         tabId r w2 of
                    (r3, exchanges3, w3) \<Rightarrow> (r3, exchanges @ exchanges3, w3))))"

definition truncateHtmlSample :: "nat \<Rightarrow> string \<Rightarrow> string \<Rightarrow> string" where
  "truncateHtmlSample maxHtmlLength suffix htmlSample =
     (if length htmlSample > maxHtmlLength then take maxHtmlLength htmlSample @ suffix
      else htmlSample)"

definition attemptRecovery ::
  "('n, 'w) errorRecoveryAgent \<Rightarrow> dataPoint \<Rightarrow> string \<Rightarrow> string \<Rightarrow> string \<Rightarrow> nat \<Rightarrow> 'w
     \<Rightarrow> recoveryResult \<times> 'n selectorTest list \<times> 'w" where
  "attemptRecovery agent dataPoint failedSelector errorMessage htmlSample tabId w =
     tryStrategies agent (fallbackStrategies agent) dataPoint failedSelector errorMessage
       (truncateHtmlSample 10000 ''...'' htmlSample) tabId
       \<lparr>recoverySuccessful = False, alternativeSelectors = []\<rparr> w"

text \<open>A page with two matching selectors and a strategy proposing six candidates.\<close>

definition demoPage :: "(int, unit) contentScript" where
  "demoPage tabId msg w =
     (case msg of
        TestSelector sel \<Rightarrow>
          if sel = ''h1.title'' then
            (Inr (Some \<lparr>reply_success = True, reply_count = Some 1, reply_data = None,
                        reply_error = None\<rparr>), w)
          else if sel = ''.price'' then
            (Inr (Some \<lparr>reply_success = True, reply_count = Some 3, reply_data = None,
                        reply_error = None\<rparr>), w)
          else if sel = ''div['' then
            (Inr (Some \<lparr>reply_success = False, reply_count = Some 0, reply_data = None,
                        reply_error = Some ''Invalid selector''\<rparr>), w)
          else if sel = ''#gone'' then (Inl (Error ''tab closed''), w)
          else
            (Inr (Some \<lparr>reply_success = True, reply_count = Some 0, reply_data = None,
                        reply_error = None\<rparr>), w)
      | ExtractData sel ty attr \<Rightarrow> (Inr None, w))"

definition demoStrategy :: "unit recoveryStrategy" where
  "demoStrategy dataPoint failedSelector errorMessage html w =
     (Inr (Some [''span.none'', ''h1.title'', ''div['', ''#gone'', ''.price'', ''h1.title'']), w)"

definition demoRecoveryAgent :: "(int, unit) errorRecoveryAgent" where
  "demoRecoveryAgent =
     \<lparr>fallbackStrategies = [demoStrategy], era_sendMessageToContentScript = demoPage\<rparr>"

definition demoDataPoint :: dataPoint where
  "demoDataPoint =
     \<lparr>dp_id = ''title'', dp_description = ''the title'', dp_type = ''string'', isList = False,
      extractionNotes = None, potentialSelectors = Some [''h1'']\<rparr>"

section \<open>Strings\<close>

text \<open>
  \<open>String.prototype\<close> functions on 8-bit code units. The white space of \<open>trim\<close> and of
  the regular expression class \<open>\s\<close> is, among these code units, TAB, LF, VT, FF, CR,
  SPACE and NBSP.
\<close>

definition isWhiteSpace :: "char \<Rightarrow> bool" where
  "isWhiteSpace c = (c \<in> set [CHR 0x09, CHR 0x0A, CHR 0x0B, CHR 0x0C, CHR 0x0D, CHR 0x20, CHR 0xA0])"

definition trimStart :: "string \<Rightarrow> string" where
  "trimStart s = dropWhile isWhiteSpace s"

definition trimEnd :: "string \<Rightarrow> string" where
  "trimEnd s = rev (dropWhile isWhiteSpace (rev s))"

definition trim :: "string \<Rightarrow> string" where
  "trim s = trimEnd (trimStart s)"

definition startsWith :: "string \<Rightarrow> string \<Rightarrow> bool" where
  "startsWith s p = (take (length p) s = p)"

definition endsWith :: "string \<Rightarrow> string \<Rightarrow> bool" where
  "endsWith s p = (length p \<le> length s \<and> drop (length s - length p) s = p)"


text \<open>
  \<open>substring(start, end)\<close>: both indices are clamped to the length and swapped when
  the first exceeds the second. \<open>includesStr\<close> is \<open>String.prototype.includes\<close>.
\<close>

definition substring :: "string \<Rightarrow> nat \<Rightarrow> nat \<Rightarrow> string" where
  "substring s startIdx endIdx =
     (let a = min startIdx (length s); b = min endIdx (length s)
      in take (max a b - min a b) (drop (min a b) s))"

text \<open>
  \<open>toLowerCase\<close> on 8-bit code units: the letters A to Z and the accented capitals
  0xC0 to 0xDE (without the multiplication sign 0xD7) move up by 32. \<open>toUpperCase\<close> is
  applied to ASCII strings only, where it changes the letters a to z.
\<close>

definition charToLower :: "char \<Rightarrow> char" where
  "charToLower c =
     (let n = (of_char c :: nat)
      in if (65 \<le> n \<and> n \<le> 90) \<or> (192 \<le> n \<and> n \<le> 222 \<and> n \<noteq> 215)
         then char_of (n + 32) else c)"

definition charToUpper :: "char \<Rightarrow> char" where
  "charToUpper c =
     (let n = (of_char c :: nat) in if 97 \<le> n \<and> n \<le> 122 then char_of (n - 32) else c)"

definition toLowerCase :: "string \<Rightarrow> string" where
  "toLowerCase s = map charToLower s"

definition toUpperCase :: "string \<Rightarrow> string" where
  "toUpperCase s = map charToUpper s"

section \<open>Selector Agent: \<open>convertSelector\<close>\<close>

text \<open>
  The agents call \<open>this.llmBridge.query(prompt, {systemPrompt, temperature, maxTokens})\<close>;
  the bridge is the agent's collaborator and resolves to a response or throws.
  \<open>getSystemPrompt\<close> is imported from llm/prompt-templates.
\<close>

record agentQueryExtras =
  systemPrompt :: string
  temperature :: real
  maxTokens :: nat

record ('y, 'w) selectorAgent =
  sa_llmBridge_query :: "(agentQueryExtras, 'y, 'w) llmProvider"
  sa_getSystemPrompt :: "string \<Rightarrow> string"

definition agentOptions :: "string \<Rightarrow> real \<Rightarrow> nat \<Rightarrow> agentQueryExtras queryOptions" where
  "agentOptions sp t m =
     \<lparr>opt_provider = None, opt_fallbackProvider = None,
      opt_rest = \<lparr>systemPrompt = sp, temperature = t, maxTokens = m\<rparr>\<rparr>"

datatype selectorType = css | xpath

fun selectorTypeName :: "selectorType \<Rightarrow> string" where
  "selectorTypeName css = ''css''"
| "selectorTypeName xpath = ''xpath''"

text \<open>
  \<open>SelectorConversionResult\<close>. The fields after \<open>error\<close> are absent from the failure
  result of the JavaScript agent; \<open>convertedSelector\<close> is \<open>null\<close> in the failure result
  of the TypeScript agent.
\<close>

record selectorConversionResult =
  cv_success :: bool
  cv_error :: "string option"
  cv_originalSelector :: "string option"
  cv_convertedSelector :: "string option"
  cv_originalType :: "selectorType option"
  cv_targetType :: "selectorType option"

type_synonym modelCall = "string \<times> agentQueryExtras queryOptions"

subsection \<open>scout-mind-extension/src/agents/selectorAgent.ts\<close>

definition originalTypeOf :: "string \<Rightarrow> selectorType" where
  "originalTypeOf selector =
     (if startsWith selector ''/'' \<or> startsWith selector ''./'' \<or> startsWith selector ''(''
      then xpath else css)"

definition conversionPrompt_ts :: "selectorType \<Rightarrow> selectorType \<Rightarrow> string \<Rightarrow> string" where
  "conversionPrompt_ts originalType targetType selector =
     ''Please convert the following '' @ toUpperCase (selectorTypeName originalType)
       @ '' selector to '' @ toUpperCase (selectorTypeName targetType) @ '':'' @ [CHR 0x0A]
       @ ''`'' @ selector @ ''`'' @ [CHR 0x0A]
       @ ''Only respond with the converted selector string, nothing else.''"

text \<open>The cleaning of the reply: one pair of equal surrounding quote characters is cut.\<close>

definition stripSurroundingQuotes :: "string \<Rightarrow> string" where
  "stripSurroundingQuotes converted =
     (if (startsWith converted ''`'' \<and> endsWith converted ''`'')
         \<or> (startsWith converted [CHR 0x27] \<and> endsWith converted [CHR 0x27])
         \<or> (startsWith converted [CHR 0x22] \<and> endsWith converted [CHR 0x22])
      then substring converted 1 (length converted - 1)
      else converted)"

definition conversionFailure_ts ::
  "string \<Rightarrow> string \<Rightarrow> selectorType \<Rightarrow> selectorType \<Rightarrow> selectorConversionResult" where
  "conversionFailure_ts msg selector originalType targetType =
     \<lparr>cv_success = False, cv_error = Some msg, cv_originalSelector = Some selector,
      cv_convertedSelector = None, cv_originalType = Some originalType,
      cv_targetType = Some targetType\<rparr>"

text \<open>
  \<open>convertSelector\<close> returns its result, the model calls it made (prompt and options, in
  order) and the world after them.
\<close>

definition convertSelector_ts ::
  "('y, 'w) selectorAgent \<Rightarrow> string \<Rightarrow> selectorType \<Rightarrow> 'w
     \<Rightarrow> selectorConversionResult \<times> modelCall list \<times> 'w" where
  "convertSelector_ts agent selector targetType w =
     (let originalType = originalTypeOf selector in
      if originalType = targetType then
        (\<lparr>cv_success = True, cv_error = None, cv_originalSelector = Some selector,
          cv_convertedSelector = Some selector, cv_originalType = Some originalType,
          cv_targetType = Some targetType\<rparr>, [], w)
      else
        (let prompt = conversionPrompt_ts originalType targetType selector;
             options = agentOptions (sa_getSystemPrompt agent ''SELECTOR'') 0 256
         in case sa_llmBridge_query agent prompt options w of
              (Inl err, w1) \<Rightarrow>
                (conversionFailure_ts (message err) selector originalType targetType,
                 [(prompt, options)], w1)
            | (Inr llmResponse, w1) \<Rightarrow>
                if truthy (resp_error llmResponse) \<or> resp_text llmResponse = [] then
                  (conversionFailure_ts
                     (if truthy (resp_error llmResponse) then the (resp_error llmResponse)
                      else ''Failed to get valid response from LLM for selector conversion'')
                     selector originalType targetType,
                   [(prompt, options)], w1)
                else
                  (\<lparr>cv_success = True, cv_error = None, cv_originalSelector = Some selector,
                    cv_convertedSelector =
                      Some (stripSurroundingQuotes (trim (resp_text llmResponse))),
                    cv_originalType = Some originalType, cv_targetType = Some targetType\<rparr>,
                   [(prompt, options)], w1)))"

subsection \<open>agents/selector-agent.js\<close>

definition isQuoteChar :: "char \<Rightarrow> bool" where
  "isQuoteChar c = (c = CHR ''`'' \<or> c = CHR 0x22 \<or> c = CHR 0x27)"

text \<open>
  \<open>.replace(/^[\s\S]*?(`|"|')/, '')\<close> cuts everything up to and including the first quote
  character; \<open>.replace(/(`|"|')[\s\S]*$/, '')\<close> cuts everything from the first remaining
  quote character on. Without a quote character either leaves the string as it is.
\<close>

definition removeBeforeFirstQuote :: "string \<Rightarrow> string" where
  "removeBeforeFirstQuote s =
     (case dropWhile (\<lambda>c. \<not> isQuoteChar c) s of [] \<Rightarrow> s | q # rest \<Rightarrow> rest)"

definition removeFromFirstQuote :: "string \<Rightarrow> string" where
  "removeFromFirstQuote s = takeWhile (\<lambda>c. \<not> isQuoteChar c) s"

definition conversionPrompt_js :: "string \<Rightarrow> selectorType \<Rightarrow> string" where
  "conversionPrompt_js selector targetType =
     ''Please convert the following '' @ (if startsWith selector ''/'' then ''XPath'' else ''CSS'')
       @ '' selector to '' @ toUpperCase (selectorTypeName targetType) @ '':'' @ [CHR 0x0A]
       @ ''`'' @ selector @ ''`'' @ [CHR 0x0A, CHR 0x0A]
       @ ''Only respond with the converted selector, nothing else.''"

definition conversionFailure_js :: "string \<Rightarrow> selectorConversionResult" where
  "conversionFailure_js msg =
     \<lparr>cv_success = False, cv_error = Some msg, cv_originalSelector = None,
      cv_convertedSelector = None, cv_originalType = None, cv_targetType = None\<rparr>"

definition convertSelector_js ::
  "('y, 'w) selectorAgent \<Rightarrow> string \<Rightarrow> selectorType \<Rightarrow> 'w
     \<Rightarrow> selectorConversionResult \<times> modelCall list \<times> 'w" where
  "convertSelector_js agent selector targetType w =
     (let prompt = conversionPrompt_js selector targetType;
          options = agentOptions (sa_getSystemPrompt agent ''SELECTOR'') (1 / 10) 256
      in case sa_llmBridge_query agent prompt options w of
           (Inl err, w1) \<Rightarrow> (conversionFailure_js (message err), [(prompt, options)], w1)
         | (Inr llmResponse, w1) \<Rightarrow>
             if resp_text llmResponse = [] then
               (conversionFailure_js
                  ''Failed to get valid response from LLM for selector conversion'',
                [(prompt, options)], w1)
             else
               (\<lparr>cv_success = True, cv_error = None, cv_originalSelector = Some selector,
                 cv_convertedSelector =
                   Some (removeFromFirstQuote
                           (removeBeforeFirstQuote (trim (resp_text llmResponse)))),
                 cv_originalType = Some (if startsWith selector ''/'' then xpath else css),
                 cv_targetType = Some targetType\<rparr>,
                [(prompt, options)], w1))"

text \<open>A model that answers every conversion request with a back-quoted selector.\<close>

definition demoSelectorAgent :: "(unit, unit) selectorAgent" where
  "demoSelectorAgent =
     \<lparr>sa_llmBridge_query = (\<lambda>prompt options w.
        (Inr \<lparr>resp_text = '' `//main/div` '' @ [CHR 0x0A], resp_error = None,
              resp_provider = Some ''ollama'', resp_rest = None\<rparr>, w)),
      sa_getSystemPrompt = (\<lambda>k. ''You are a selector expert.'')\<rparr>"

section \<open>Orchestrator: \<open>AgentOrchestrator.processRequest\<close> (agents/orchestrator.js)\<close>

text \<open>
  An object whose shape the program does not fix (an extraction error, a validation issue,
  an entry of the final \<open>issues\<close> array) is the list of its properties; reading a
  property that is not there gives \<open>undefined\<close>.
\<close>

type_synonym 'n jsobject = "(string \<times> 'n jsval) list"

definition getProp :: "'n jsobject \<Rightarrow> string \<Rightarrow> 'n jsval" where
  "getProp obj k = (case map_of obj k of None \<Rightarrow> JUndefined | Some v \<Rightarrow> v)"

text \<open>The plan as the orchestrator and the validator read it.\<close>

record extractionPlan =
  dataPoints :: "dataPoint list option"
  targetUrl :: "string option"
  extractionGoal :: "string option"

text \<open>
  The collaborators of the orchestrator. Their implementations are not part of
  agents/orchestrator.js; each resolves to a value of the shape the orchestrator reads,
  or throws.
\<close>

record offscreenReply =
  off_success :: bool
  off_htmlContent :: "string option"
  off_error :: "string option"

record 'n extractionOutcome =
  eo_rawData :: "string \<rightharpoonup> 'n jsval"
  eo_extractionErrors :: "'n jsobject list"

record 'n validationOutcome =
  vo_validatedData :: "string \<rightharpoonup> 'n jsval"
  vo_validationIssues :: "'n jsobject list"

record extractionDetails =
  ed_type :: "string option"
  ed_attribute :: "string option"

record ('n, 'w) agentOrchestrator =
  o_sendMessageToOffscreen :: "string \<Rightarrow> 'w \<Rightarrow> (jsError + offscreenReply option) \<times> 'w"
  o_createPlan ::
    "string \<Rightarrow> string \<Rightarrow> string \<Rightarrow> 'w \<Rightarrow> (jsError + extractionPlan option) \<times> 'w"
  o_generateSelectors ::
    "extractionPlan option \<Rightarrow> string \<Rightarrow> 'w \<Rightarrow> (jsError + extractionPlan option) \<times> 'w"
  o_extractData ::
    "extractionPlan option \<Rightarrow> nat \<Rightarrow> 'w \<Rightarrow> (jsError + 'n extractionOutcome) \<times> 'w"
  o_getExtractionDetails :: "dataPoint \<Rightarrow> jsError + extractionDetails"
  o_attemptRecovery ::
    "dataPoint \<Rightarrow> 'n jsval \<Rightarrow> 'n jsval \<Rightarrow> string \<Rightarrow> nat \<Rightarrow> 'w
       \<Rightarrow> (jsError + recoveryResult) \<times> 'w"
  o_sendMessageToContentScript :: "('n, 'w) contentScript"
  o_validateData ::
    "(string \<rightharpoonup> 'n jsval) \<Rightarrow> extractionPlan option \<Rightarrow> 'w
       \<Rightarrow> (jsError + 'n validationOutcome) \<times> 'w"

text \<open>The local variables of \<open>processRequest\<close> that its \<open>catch\<close> block reads.\<close>

record 'n orchestratorVars =
  v_plan :: "extractionPlan option"
  v_rawData :: "string \<rightharpoonup> 'n jsval"
  v_validatedData :: "string \<rightharpoonup> 'n jsval"
  v_validationIssues :: "'n jsobject list"
  v_extractionErrors :: "'n jsobject list"
  v_finalSelectors :: "string \<rightharpoonup> string option"

record 'n orchestrationResult =
  res_success :: bool
  res_error :: "string option"
  res_plan :: "extractionPlan option"
  res_selectors :: "string \<rightharpoonup> string option"
  res_data :: "string \<rightharpoonup> 'n jsval"
  res_issues :: "'n jsobject list"

definition fetchFailedPrefix :: string where
  "fetchFailedPrefix = ''Failed to fetch page content for planning/extraction: ''"

definition offscreenFailedDefault :: string where
  "offscreenFailedDefault = ''Offscreen document failed to fetch or return HTML content.''"

definition fetchHtmlSample ::
  "('n, 'w) agentOrchestrator \<Rightarrow> string \<Rightarrow> 'w \<Rightarrow> (jsError + string) \<times> 'w" where
  "fetchHtmlSample orch url w =
     (case o_sendMessageToOffscreen orch url w of
        (Inl err, w1) \<Rightarrow> (Inl (Error (fetchFailedPrefix @ message err)), w1)
      | (Inr None, w1) \<Rightarrow> (Inl (Error (fetchFailedPrefix @ offscreenFailedDefault)), w1)
      | (Inr (Some response), w1) \<Rightarrow>
          (case (off_success response, off_htmlContent response) of
             (True, Some htmlContent) \<Rightarrow> (Inr htmlContent, w1)
           | _ \<Rightarrow>
               (Inl (Error (fetchFailedPrefix
                      @ (if truthy (off_error response) then the (off_error response)
                         else offscreenFailedDefault))), w1)))"

text \<open>\<open>!plan || !plan.dataPoints || plan.dataPoints.length === 0\<close>.\<close>

definition noDataPoints :: "extractionPlan option \<Rightarrow> bool" where
  "noDataPoints plan =
     (case plan of
        None \<Rightarrow> True
      | Some p \<Rightarrow> (case dataPoints p of None \<Rightarrow> True | Some dps \<Rightarrow> length dps = 0))"

text \<open>The \<open>TypeError\<close> of reading \<open>plan.dataPoints\<close> or calling a method of it.\<close>

definition dataPointsOf :: "extractionPlan option \<Rightarrow> jsError + dataPoint list" where
  "dataPointsOf plan =
     (case plan of
        None \<Rightarrow> Inl (Error ''Cannot read properties of null (reading dataPoints)'')
      | Some p \<Rightarrow>
          (case dataPoints p of
             None \<Rightarrow> Inl (Error ''Cannot read properties of undefined'')
           | Some dps \<Rightarrow> Inr dps))"

text \<open>
  Assigning to a field of the object that \<open>Array.prototype.find\<close> returned changes the
  first matching element of \<open>plan.dataPoints\<close>.
\<close>

fun updateFirst :: "('a \<Rightarrow> bool) \<Rightarrow> ('a \<Rightarrow> 'a) \<Rightarrow> 'a list \<Rightarrow> 'a list" where
  "updateFirst P f [] = []"
| "updateFirst P f (x # xs) = (if P x then f x # xs else x # updateFirst P f xs)"

text \<open>The variables the recovery loop changes, and \<open>recoveryAttempts\<close>.\<close>

record 'n recoveryLoopVars =
  l_plan :: "extractionPlan option"
  l_rawData :: "string \<rightharpoonup> 'n jsval"
  l_extractionErrors :: "'n jsobject list"
  l_recoveryAttempts :: "string \<rightharpoonup> nat"

text \<open>
  The re-extraction of one recovered data point, with its own \<open>try\<close>/\<open>catch\<close>: every
  failure leaves the variables as they are.
\<close>

definition reExtract ::
  "('n, 'w) agentOrchestrator \<Rightarrow> nat \<Rightarrow> dataPoint \<Rightarrow> string \<Rightarrow> 'n recoveryLoopVars \<Rightarrow> 'w
     \<Rightarrow> 'n recoveryLoopVars \<times> 'w" where
  "reExtract orch tabId failedDp selector vars w =
     (case o_getExtractionDetails orch failedDp of
        Inl reExtractError \<Rightarrow> (vars, w)
      | Inr details \<Rightarrow>
          (case o_sendMessageToContentScript orch tabId
                  (ExtractData (Some selector) (ed_type details) (ed_attribute details)) w of
             (Inl reExtractError, w1) \<Rightarrow> (vars, w1)
           | (Inr None, w1) \<Rightarrow> (vars, w1)
           | (Inr (Some reExtractResponse), w1) \<Rightarrow>
               if reply_success reExtractResponse then
                 (let results = (case reply_data reExtractResponse of None \<Rightarrow> [] | Some d \<Rightarrow> d)
                  in (vars\<lparr>l_rawData := (l_rawData vars)(dp_id failedDp \<mapsto>
                              (if isList failedDp then JArr results
                               else (case results of [] \<Rightarrow> JNull | r # rs \<Rightarrow> r))),
                            l_extractionErrors :=
                              filter (\<lambda>e. getProp e ''dpId'' \<noteq> JStr (dp_id failedDp))
                                (l_extractionErrors vars)\<rparr>, w1))
               else (vars, w1)))"

text \<open>
  The loop \<open>for (const errorInfo of extractionErrors)\<close>, over the array as it was when
  the loop started. It returns the variables, or the thrown error with the variables at
  the throw.
\<close>

fun recoverFailed ::
  "('n, 'w) agentOrchestrator \<Rightarrow> string \<Rightarrow> nat \<Rightarrow> 'n jsobject list \<Rightarrow> 'n recoveryLoopVars \<Rightarrow> 'w
     \<Rightarrow> (jsError \<times> 'n recoveryLoopVars + 'n recoveryLoopVars) \<times> 'w" where
  "recoverFailed orch htmlSample tabId [] vars w = (Inr vars, w)"
| "recoverFailed orch htmlSample tabId (errorInfo # rest) vars w =
     (case dataPointsOf (l_plan vars) of
        Inl err \<Rightarrow> (Inl (err, vars), w)
      | Inr dps \<Rightarrow>
          (case find (\<lambda>dp. JStr (dp_id dp) = getProp errorInfo ''dpId'') dps of
             None \<Rightarrow> recoverFailed orch htmlSample tabId rest vars w
           | Some failedDp \<Rightarrow>
               (let attemptCount =
                      (case l_recoveryAttempts vars (dp_id failedDp) of None \<Rightarrow> 0 | Some c \<Rightarrow> c) + 1
                in if attemptCount > 2 then recoverFailed orch htmlSample tabId rest vars w
                   else
                     (let vars1 = vars\<lparr>l_recoveryAttempts :=
                                   (l_recoveryAttempts vars)(dp_id failedDp \<mapsto> attemptCount)\<rparr>
                      in case o_attemptRecovery orch failedDp (getProp errorInfo ''selector'')
                                (getProp errorInfo ''error'') htmlSample tabId w of
                           (Inl err, w1) \<Rightarrow> (Inl (err, vars1), w1)
                         | (Inr recoveryResult, w1) \<Rightarrow>
                             (case (recoverySuccessful recoveryResult,
                                    alternativeSelectors recoveryResult) of
                                (True, selector # others) \<Rightarrow>
                                  (let recoveredDp = failedDp\<lparr>potentialSelectors :=
                                         Some (alternativeSelectors recoveryResult)\<rparr>;
                                       vars2 = vars1\<lparr>l_plan :=
                                         map_option (\<lambda>p. p\<lparr>dataPoints := Some
                                            (updateFirst
                                               (\<lambda>dp. JStr (dp_id dp) = getProp errorInfo ''dpId'')
                                               (\<lambda>dp. recoveredDp) dps)\<rparr>) (l_plan vars1)\<rparr>
                                   in case reExtract orch tabId recoveredDp selector vars2 w1 of
                                        (vars3, w2) \<Rightarrow>
                                          recoverFailed orch htmlSample tabId rest vars3 w2)
                              | _ \<Rightarrow> recoverFailed orch htmlSample tabId rest vars1 w1)))))"

text \<open>\<open>finalSelectors[dp.id] = dp.potentialSelectors?.[0] || null\<close>, for each data point.\<close>

definition firstSelector :: "dataPoint \<Rightarrow> string option" where
  "firstSelector dp =
     (case potentialSelectors dp of
        None \<Rightarrow> None
      | Some [] \<Rightarrow> None
      | Some (s # ss) \<Rightarrow> (if s = [] then None else Some s))"

definition collectFinalSelectors :: "dataPoint list \<Rightarrow> (string \<rightharpoonup> string option)" where
  "collectFinalSelectors dps =
     foldl (\<lambda>finalSelectors dp. finalSelectors(dp_id dp \<mapsto> firstSelector dp)) Map.empty dps"

definition initialVars :: "'n orchestratorVars" where
  "initialVars =
     \<lparr>v_plan = None, v_rawData = Map.empty, v_validatedData = Map.empty,
      v_validationIssues = [], v_extractionErrors = [], v_finalSelectors = Map.empty\<rparr>"

definition withLoopVars :: "'n orchestratorVars \<Rightarrow> 'n recoveryLoopVars \<Rightarrow> 'n orchestratorVars" where
  "withLoopVars vars l =
     vars\<lparr>v_plan := l_plan l, v_rawData := l_rawData l,
          v_extractionErrors := l_extractionErrors l\<rparr>"

text \<open>
  The body of the \<open>try\<close> block: the result it returns, or the error thrown in it with the
  variables at the throw.
\<close>

definition processRequest_try ::
  "('n, 'w) agentOrchestrator \<Rightarrow> string \<Rightarrow> string \<Rightarrow> string option \<Rightarrow> nat \<Rightarrow> 'w
     \<Rightarrow> (jsError \<times> 'n orchestratorVars + 'n orchestrationResult) \<times> 'w" where
  "processRequest_try orch naturalLanguageInstruction url llmProvider tabId w =
     (case fetchHtmlSample orch url w of
        (Inl err, w1) \<Rightarrow> (Inl (err, initialVars), w1)
      | (Inr htmlSample, w1) \<Rightarrow>
     (case o_createPlan orch naturalLanguageInstruction url htmlSample w1 of
        (Inl err, w2) \<Rightarrow> (Inl (err, initialVars), w2)
      | (Inr plan, w2) \<Rightarrow>
     (let vars2 = initialVars\<lparr>v_plan := plan\<rparr> in
      if noDataPoints plan then
        (Inl (Error ''Planning failed: No data points were identified.'', vars2), w2)
      else
     (case o_generateSelectors orch plan htmlSample w2 of
        (Inl err, w3) \<Rightarrow> (Inl (err, vars2), w3)
      | (Inr plan3, w3) \<Rightarrow>
     (let vars3 = vars2\<lparr>v_plan := plan3\<rparr> in
      case o_extractData orch plan3 tabId w3 of
        (Inl err, w4) \<Rightarrow> (Inl (err, vars3), w4)
      | (Inr extractionResult, w4) \<Rightarrow>
     (let vars4 = vars3\<lparr>v_rawData := eo_rawData extractionResult,
                        v_extractionErrors := eo_extractionErrors extractionResult\<rparr>;
          loop0 = \<lparr>l_plan = v_plan vars4, l_rawData = v_rawData vars4,
                   l_extractionErrors = v_extractionErrors vars4,
                   l_recoveryAttempts = Map.empty\<rparr>
      in case (if length (v_extractionErrors vars4) > 0
               then recoverFailed orch htmlSample tabId (v_extractionErrors vars4) loop0 w4
               else (Inr loop0, w4)) of
           (Inl (err, loop), w5) \<Rightarrow> (Inl (err, withLoopVars vars4 loop), w5)
         | (Inr loop, w5) \<Rightarrow>
     (let vars5 = withLoopVars vars4 loop in
      case o_validateData orch (v_rawData vars5) (v_plan vars5) w5 of
        (Inl err, w6) \<Rightarrow> (Inl (err, vars5), w6)
      | (Inr validationResult, w6) \<Rightarrow>
     (let vars6 = vars5\<lparr>v_validatedData := vo_validatedData validationResult,
                        v_validationIssues := vo_validationIssues validationResult\<rparr>
      in case dataPointsOf (v_plan vars6) of
           Inl err \<Rightarrow> (Inl (err, vars6), w6)
         | Inr dps \<Rightarrow>
             (Inr \<lparr>res_success = True, res_error = None, res_plan = v_plan vars6,
                   res_selectors = collectFinalSelectors dps,
                   res_data = v_validatedData vars6,
                   res_issues = v_extractionErrors vars6 @ v_validationIssues vars6\<rparr>,
              w6)))))))))"






section \<open>Plan Agent: \<open>PlannerAgent\<close> (agents/planner-agent.js, plannerAgent.ts)\<close>

text \<open>
  \<open>parseExtractionPlan\<close> fills each field of the plan from its own regular expression on
  the response text; no field depends on another. The model has the fields \<open>success\<close>,
  \<open>error\<close> and \<open>keyFields\<close>. Both files hold the same regular expressions.
\<close>

record keyField =
  kf_name :: string
  kf_type :: string

record parsedPlan =
  pp_success :: bool
  pp_error :: "string option"
  pp_keyFields :: "keyField list"

text \<open>
  A literal of a regular expression with the flag \<open>i\<close>, matched at the start of a
  text: the literals used are ASCII, and a code unit matches a letter of the literal iff
  both are that letter in either case.
\<close>

fun matchesIgnoringCase :: "string \<Rightarrow> string \<Rightarrow> bool" where
  "matchesIgnoringCase s [] = True"
| "matchesIgnoringCase [] (p # ps) = False"
| "matchesIgnoringCase (c # cs) (p # ps) =
     (if charToLower c = charToLower p then matchesIgnoringCase cs ps else False)"

text \<open>The text after the leftmost match of a literal, if there is a match.\<close>

fun afterFirstMatch :: "string \<Rightarrow> string \<Rightarrow> string option" where
  "afterFirstMatch literal [] = (if literal = [] then Some [] else None)"
| "afterFirstMatch literal (c # cs) =
     (if matchesIgnoringCase (c # cs) literal then Some (drop (length literal) (c # cs))
      else afterFirstMatch literal cs)"

text \<open>
  The lazy group \<open>([\s\S]*?)\<close> followed by a lookahead \<open>(?=A|B|C|$)\<close>: the shortest
  prefix after which one of the literals, or the end of the text, follows.
\<close>

fun lazyUntil :: "string list \<Rightarrow> string \<Rightarrow> string" where
  "lazyUntil literals [] = []"
| "lazyUntil literals (c # cs) =
     (if \<exists>literal \<in> set literals. matchesIgnoringCase (c # cs) literal then []
      else c # lazyUntil literals cs)"

text \<open>
  \<open>/Key Fields:?\s*([\s\S]*?)(?=Target Elements:|Extraction Strategy:|Potential Challenges:|$)/i\<close>:
  the captured group of the match, if the expression matches. After the leftmost
  \<open>Key Fields\<close> the rest of the expression always matches without backtracking.
\<close>

definition fieldsSection :: "string \<Rightarrow> string option" where
  "fieldsSection responseText =
     (case afterFirstMatch ''Key Fields'' responseText of
        None \<Rightarrow> None
      | Some rest \<Rightarrow>
          (let afterColon = (case rest of [] \<Rightarrow> [] | c # cs \<Rightarrow> if c = CHR '':'' then cs else c # cs)
           in Some (lazyUntil
                      [''Target Elements:'', ''Extraction Strategy:'', ''Potential Challenges:'']
                      (dropWhile isWhiteSpace afterColon))))"

text \<open>\<open>split('\n')\<close>.\<close>

fun splitLines :: "string \<Rightarrow> string list" where
  "splitLines [] = [[]]"
| "splitLines (c # cs) =
     (if c = CHR 0x0A then [] # splitLines cs
      else (case splitLines cs of l # ls \<Rightarrow> (c # l) # ls | [] \<Rightarrow> [[c]]))"

text \<open>\<open>replace(/^-\s*/, '')\<close>.\<close>

definition stripBullet :: "string \<Rightarrow> string" where
  "stripBullet s =
     (case s of [] \<Rightarrow> [] | c # cs \<Rightarrow> if c = CHR ''-'' then dropWhile isWhiteSpace cs else c # cs)"

definition isFieldNameChar :: "char \<Rightarrow> bool" where
  "isFieldNameChar c = (c \<noteq> CHR '':'' \<and> c \<noteq> CHR ''['' \<and> c \<noteq> CHR '']'')"

text \<open>
  The optional group \<open>(?:\s*\[([^\]]+)\])?\<close> right after the first group: it matches iff
  a \<open>[\<close> follows, then at least one code unit other than \<open>]\<close>, then a \<open>]\<close>.
\<close>

definition bracketedType :: "string \<Rightarrow> string option" where
  "bracketedType s =
     (case s of
        [] \<Rightarrow> None
      | c # cs \<Rightarrow>
          if c = CHR ''['' \<and> takeWhile (\<lambda>x. x \<noteq> CHR '']'') cs \<noteq> []
               \<and> dropWhile (\<lambda>x. x \<noteq> CHR '']'') cs \<noteq> []
          then Some (takeWhile (\<lambda>x. x \<noteq> CHR '']'') cs) else None)"

text \<open>
  One line of the section: \<open>field.match(/([^:[\]]+)(?:\s*\[([^\]]+)\])?/)\<close> matches at the
  leftmost code unit other than \<open>:\<close>, \<open>[\<close>, \<open>]\<close>, and its first group is the longest run of
  such code units from there; without such a code unit there is no match and the field is
  its own name.
\<close>

definition parseKeyField :: "string \<Rightarrow> keyField" where
  "parseKeyField line =
     (let field = stripBullet (trim line);
          fromName = dropWhile (\<lambda>c. \<not> isFieldNameChar c) field
      in if fromName = [] then \<lparr>kf_name = field, kf_type = ''string''\<rparr>
         else
           \<lparr>kf_name = trim (takeWhile isFieldNameChar fromName),
            kf_type = (case bracketedType (dropWhile isFieldNameChar fromName) of
                         None \<Rightarrow> ''string''
                       | Some t \<Rightarrow> toLowerCase (trim t))\<rparr>)"

definition parseExtractionPlan :: "string \<Rightarrow> parsedPlan" where
  "parseExtractionPlan responseText =
     \<lparr>pp_success = True, pp_error = None,
      pp_keyFields =
        (case fieldsSection responseText of
           None \<Rightarrow> []
         | Some section \<Rightarrow>
             filter (\<lambda>f. kf_name f \<noteq> []) (map parseKeyField (splitLines (trim section))))\<rparr>"

text \<open>
  \<open>createExtractionPlan\<close>: everything that throws inside its \<open>try\<close> block gives the plan
  \<open>{success: false, error}\<close>. \<open>fillTemplate\<close> (llm/prompt-templates.js) throws for an
  unknown template.
\<close>

record ('y, 'w) plannerAgent =
  pl_llmBridge_query :: "(agentQueryExtras, 'y, 'w) llmProvider"
  pl_fillTemplate :: "string \<Rightarrow> (string \<times> string) list \<Rightarrow> jsError + string"
  pl_getSystemPrompt :: "string \<Rightarrow> jsError + string"
  pl_maxHtmlSampleLength :: nat

definition failedPlan :: "string \<Rightarrow> parsedPlan" where
  "failedPlan msg = \<lparr>pp_success = False, pp_error = Some msg, pp_keyFields = []\<rparr>"

definition plannerPrompt ::
  "('y, 'w) plannerAgent \<Rightarrow> string \<Rightarrow> string \<Rightarrow> string \<Rightarrow> jsError + string" where
  "plannerPrompt agent url goal htmlSample =
     pl_fillTemplate agent ''PLANNER_CREATE_PLAN''
       [(''targetUrl'', url), (''extractionGoal'', goal),
        (''htmlSample'',
           truncateHtmlSample (pl_maxHtmlSampleLength agent)
             ([CHR 0x0A] @ ''<!-- HTML truncated for size limits -->'') htmlSample)]"

text \<open>
  The two files differ in the test of the response: the JavaScript plan fails on an
  empty text, the TypeScript plan also on a response with an \<open>error\<close>.
\<close>

definition createExtractionPlanWith ::
  "('y llmResponse \<Rightarrow> string option) \<Rightarrow> ('y, 'w) plannerAgent \<Rightarrow> string \<Rightarrow> string \<Rightarrow> string \<Rightarrow> 'w
     \<Rightarrow> parsedPlan \<times> 'w" where
  "createExtractionPlanWith responseFailure agent url goal htmlSample w =
     (case plannerPrompt agent url goal htmlSample of
        Inl err \<Rightarrow> (failedPlan (message err), w)
      | Inr prompt \<Rightarrow>
          (case pl_getSystemPrompt agent ''PLANNER'' of
             Inl err \<Rightarrow> (failedPlan (message err), w)
           | Inr sp \<Rightarrow>
               (case pl_llmBridge_query agent prompt (agentOptions sp (3 / 10) 2048) w of
                  (Inl err, w1) \<Rightarrow> (failedPlan (message err), w1)
                | (Inr llmResponse, w1) \<Rightarrow>
                    (case responseFailure llmResponse of
                       Some msg \<Rightarrow> (failedPlan msg, w1)
                     | None \<Rightarrow> (parseExtractionPlan (resp_text llmResponse), w1)))))"

definition responseFailure_js :: "'y llmResponse \<Rightarrow> string option" where
  "responseFailure_js llmResponse =
     (if resp_text llmResponse = [] then Some ''Failed to get valid response from LLM''
      else None)"

definition responseFailure_ts :: "'y llmResponse \<Rightarrow> string option" where
  "responseFailure_ts llmResponse =
     (if truthy (resp_error llmResponse) then resp_error llmResponse
      else if resp_text llmResponse = []
      then Some ''Failed to get valid response from LLM for plan creation''
      else None)"

definition createExtractionPlan_js ::
  "('y, 'w) plannerAgent \<Rightarrow> string \<Rightarrow> string \<Rightarrow> string \<Rightarrow> 'w \<Rightarrow> parsedPlan \<times> 'w" where
  "createExtractionPlan_js = createExtractionPlanWith responseFailure_js"

definition createExtractionPlan_ts ::
  "('y, 'w) plannerAgent \<Rightarrow> string \<Rightarrow> string \<Rightarrow> string \<Rightarrow> 'w \<Rightarrow> parsedPlan \<times> 'w" where
  "createExtractionPlan_ts = createExtractionPlanWith responseFailure_ts"

text \<open>A planner whose model answers with a given text.\<close>

definition demoPlanner :: "string \<Rightarrow> (unit, unit) plannerAgent" where
  "demoPlanner answer =
     \<lparr>pl_llmBridge_query = (\<lambda>prompt options w.
        (Inr \<lparr>resp_text = answer, resp_error = None, resp_provider = Some ''mock'',
              resp_rest = None\<rparr>, w)),
      pl_fillTemplate = (\<lambda>templateId data. Inr (''I need to extract specific data.'')),
      pl_getSystemPrompt = (\<lambda>k. Inr ''You are a web data extraction planner.''),
      pl_maxHtmlSampleLength = 30000\<rparr>"

definition demoPlanText :: string where
  "demoPlanText =
     ''Extraction Goal: the title'' @ [CHR 0x0A]
     @ ''Key Fields:'' @ [CHR 0x0A]
     @ '' - title [String] : The main title'' @ [CHR 0x0A]
     @ ''Target Elements: H1''"

section \<open>Validation Agent: \<open>ValidatorAgent.validateData\<close>\<close>

subsection \<open>The platform\<close>

text \<open>
  The built-in functions the validator calls are parameters of the model: \<open>parseFloat\<close>,
  \<open>isNaN\<close>, the conversion of a number to a string, the \<open>URL\<close> constructor (with an
  optional base; it throws on an invalid URL), the time value of \<open>new Date(v)\<close>,
  \<open>Date.prototype.toISOString\<close> of a valid time value and the conversion of a \<open>Date\<close> to
  a string.
\<close>

record url =
  href :: string
  protocol :: string





definition isNullish :: "'n jsval \<Rightarrow> bool" where
  "isNullish v = (v = JNull \<or> v = JUndefined)"


text \<open>\<open>.trim().replace(/\s+/g, ' ')\<close>: every run of white space becomes one space.\<close>

fun collapseWhiteSpace :: "bool \<Rightarrow> string \<Rightarrow> string" where
  "collapseWhiteSpace inRun [] = []"
| "collapseWhiteSpace inRun (c # cs) =
     (if isWhiteSpace c
      then (if inRun then collapseWhiteSpace True cs else CHR '' '' # collapseWhiteSpace True cs)
      else c # collapseWhiteSpace False cs)"

definition normalizeWhiteSpace :: "string \<Rightarrow> string" where
  "normalizeWhiteSpace s = collapseWhiteSpace False (trim s)"


subsection \<open>Results\<close>

record 'n validationIssue =
  vi_dpId :: string
  vi_issue :: string
  vi_value :: "'n jsval option"
  vi_originalCount :: "nat option"

text \<open>
  \<open>success\<close> and \<open>error\<close> are fields of the TypeScript result only.
\<close>

record 'n validationResult =
  validatedData :: "string \<rightharpoonup> 'n jsval"
  validationIssues :: "'n validationIssue list"
  vr_success :: "bool option"
  vr_error :: "string option"





text \<open>The first step of \<open>cleanAndValidateItem\<close>: a string is trimmed and collapsed.\<close>

definition cleanedString :: "'n jsval \<Rightarrow> 'n jsval" where
  "cleanedString item = (case item of JStr s \<Rightarrow> JStr (normalizeWhiteSpace s) | _ \<Rightarrow> item)"




subsection \<open>agents/validator-agent.js\<close>








text \<open>\<open>currentData.map(cleanAndValidateItem)\<close>: the items in order, with their issues.\<close>

fun cleanItems ::
  "('v \<Rightarrow> 'v \<times> 'i list) \<Rightarrow> 'v list \<Rightarrow> 'v list \<times> 'i list" where
  "cleanItems f [] = ([], [])"
| "cleanItems f (x # xs) =
     (case f x of
        (v, issues) \<Rightarrow> (case cleanItems f xs of (vs, others) \<Rightarrow> (v # vs, issues @ others)))"







subsection \<open>scout-mind-extension/src/agents/validatorAgent.ts\<close>


















subsection \<open>A platform for concrete inputs\<close>





chapter \<open>Properties\<close>

section \<open>Model Gateway\<close>

lemmas demo_defs = demoBridge_def demoOptions_def targetProviderId_def routedOptions_def
  routedToExternal_def selectedProviderId_def providers_get_def providers_has_def
  externalProviderNames_def providers_keys_def failingProvider_def answeringProvider_def
  refusingProvider_def fallbackApplies_def errorResponse_def

lemma target_of_fallback:
  assumes "fb \<noteq> []"
    and "fb \<notin> set externalProviderNames \<or> \<not> providers_has b ''external''"
  shows "targetProviderId b (options\<lparr>opt_provider := Some fb, opt_fallbackProvider := None\<rparr>)
           = Some fb"
    and "routedOptions b (options\<lparr>opt_provider := Some fb, opt_fallbackProvider := None\<rparr>)
           = options\<lparr>opt_provider := Some fb, opt_fallbackProvider := None\<rparr>"
  using assms
  by (auto simp: targetProviderId_def routedOptions_def routedToExternal_def
      selectedProviderId_def)

text \<open>A query whose options carry no fallback invokes exactly the target provider.\<close>

lemma query_no_fallback:
  assumes "targetProviderId b options = Some tid" and "tid \<noteq> []"
    and "providers_get b tid = Some p"
    and "opt_fallbackProvider (routedOptions b options) = None"
  shows "\<exists>r w'. query b prompt options w = (r, [(tid, prompt, routedOptions b options)], w')
            \<and> resp_provider r = Some tid"
proof (cases "p prompt (routedOptions b options) w")
  case (Pair res w')
  show ?thesis
  proof (cases res)
    case (Inl err)
    with Pair assms show ?thesis
      by (subst query.simps) (simp add: fallbackApplies_def errorResponse_def)
  next
    case (Inr response)
    with Pair assms show ?thesis
      by (subst query.simps) simp
  qed
qed

text \<open>
  C3, as stated, fails. With the fallback equal to the provider just tried there is no
  retry at all (one invocation in the log); with the fallback \<open>'openai'\<close>, which the bridge
  routes to the \<open>'external'\<close> connector, the final response names \<open>'external'\<close>, not the
  fallback; with a fallback that is not registered the final response has no
  \<open>provider\<close> field.
\<close>

theorem query_fallback_counterexample:
  "fst (snd (query demoBridge ''p'' (demoOptions None (Some ''ollama'')) ()))
      = [(''ollama'', ''p'', demoOptions None (Some ''ollama''))]
   \<and> resp_provider (fst (query demoBridge ''p'' (demoOptions None (Some ''openai'')) ()))
      = Some ''external''
   \<and> resp_provider (fst (query demoBridge ''p'' (demoOptions None (Some ''remote'')) ()))
      = None"
  by (simp add: query.simps demo_defs)

text \<open>
  C3 (amended): when the query of the selected provider \<open>a\<close> throws and
  \<open>options.fallbackProvider\<close> is a non-empty id \<open>fb\<close> that differs from \<open>a\<close>, is registered
  and is not rerouted to the \<open>'external'\<close> connector, \<open>query\<close> invokes exactly two
  providers: \<open>a\<close>, then \<open>fb\<close> with the same prompt and the same options except
  \<open>provider = fb\<close> and the fallback cleared; the response returned has \<open>provider = fb\<close>.
\<close>

theorem query_fallback_once:
  assumes "targetProviderId b options = Some a" and "a \<noteq> []"
    and "providers_get b a = Some pa"
    and "pa prompt (routedOptions b options) w = (Inl err, w1)"
    and "opt_fallbackProvider options = Some fb" and "fb \<noteq> []" and "fb \<noteq> a"
    and "fb \<notin> set externalProviderNames \<or> \<not> providers_has b ''external''"
    and "providers_get b fb = Some pb"
  shows "\<exists>r w2. query b prompt options w =
            (r, [(a, prompt, routedOptions b options),
                 (fb, prompt, (routedOptions b options)\<lparr>opt_provider := Some fb,
                                                        opt_fallbackProvider := None\<rparr>)], w2)
          \<and> resp_provider r = Some fb"
proof -
  let ?o1 = "routedOptions b options"
  let ?o2 = "?o1\<lparr>opt_provider := Some fb, opt_fallbackProvider := None\<rparr>"
  have fb1: "opt_fallbackProvider ?o1 = Some fb"
    using assms(5) by (simp add: routedOptions_def)
  have t2: "targetProviderId b ?o2 = Some fb" and r2: "routedOptions b ?o2 = ?o2"
    using target_of_fallback [OF assms(6) assms(8)] by simp_all
  have "opt_fallbackProvider (routedOptions b ?o2) = None"
    by (simp add: r2)
  from query_no_fallback [OF t2 assms(6) assms(9) this, of prompt w1]
  obtain r w2 where q2: "query b prompt ?o2 w1 = (r, [(fb, prompt, ?o2)], w2)"
    and pr: "resp_provider r = Some fb"
    by (auto simp: r2)
  have "query b prompt options w = (r, [(a, prompt, ?o1), (fb, prompt, ?o2)], w2)"
    using assms(1-4,6,7) fb1 q2
    by (subst query.simps) (simp add: fallbackApplies_def Let_def)
  with pr show ?thesis by blast
qed

theorem query_fallback_once_witness:
  "\<exists>r w2. query demoBridge ''p'' (demoOptions None (Some ''external'')) () =
            (r, [(''ollama'', ''p'', demoOptions None (Some ''external'')),
                 (''external'', ''p'', demoOptions (Some ''external'') None)], w2)
          \<and> resp_provider r = Some ''external''"
proof -
  let ?o = "demoOptions None (Some ''external'')"
  have h1: "targetProviderId demoBridge ?o = Some ''ollama''"
    by (simp add: demo_defs)
  have h2: "''ollama'' \<noteq> []" by simp
  have h3: "providers_get demoBridge ''ollama'' = Some failingProvider"
    by (simp add: demo_defs)
  have h4: "failingProvider ''p'' (routedOptions demoBridge ?o) ()
              = (Inl (Error ''connection refused''), ())"
    by (simp add: failingProvider_def)
  have h5: "opt_fallbackProvider ?o = Some ''external''"
    by (simp add: demoOptions_def)
  have h6: "''external'' \<noteq> []" and h7: "''external'' \<noteq> ''ollama''" by simp_all
  have h8: "''external'' \<notin> set externalProviderNames
              \<or> \<not> providers_has demoBridge ''external''"
    by (simp add: externalProviderNames_def)
  have h9: "providers_get demoBridge ''external'' = Some (answeringProvider ''ok'')"
    by (simp add: demo_defs)
  have ro: "routedOptions demoBridge ?o = ?o"
    by (simp add: demo_defs)
  show ?thesis
    using query_fallback_once [OF h1 h2 h3 h4 h5 h6 h7 h8 h9]
    by (simp add: ro) (simp add: demoOptions_def)
qed

text \<open>
  C9: when the target provider's \<open>query\<close> resolves (whatever the response holds, an
  \<open>error\<close> field and an empty text included), \<open>LLMBridge.query\<close> returns that response with
  \<open>provider\<close> set to the provider tried, after that single invocation; the statement holds
  for every value of \<open>options.fallbackProvider\<close>, which is not consulted.
\<close>

theorem query_provider_resolves:
  assumes "targetProviderId b options = Some tid" and "tid \<noteq> []"
    and "providers_get b tid = Some p"
    and "p prompt (routedOptions b options) w = (Inr response, w')"
  shows "query b prompt options w =
           (response\<lparr>resp_provider := Some tid\<rparr>,
            [(tid, prompt, routedOptions b options)], w')"
  using assms by (subst query.simps) simp

theorem query_provider_resolves_witness:
  "query demoBridge ''p'' (demoOptions (Some ''local'') (Some ''external'')) ()
     = (\<lparr>resp_text = [], resp_error = Some ''quota exceeded'', resp_provider = Some ''local'',
         resp_rest = None\<rparr>,
        [(''local'', ''p'', demoOptions (Some ''local'') (Some ''external''))], ())"
proof -
  let ?o = "demoOptions (Some ''local'') (Some ''external'')"
  have h1: "targetProviderId demoBridge ?o = Some ''local''"
    by (simp add: demo_defs)
  have h2: "''local'' \<noteq> []" by simp
  have h3: "providers_get demoBridge ''local'' = Some refusingProvider"
    by (simp add: demo_defs)
  have h4: "refusingProvider ''p'' (routedOptions demoBridge ?o) ()
     = (Inr \<lparr>resp_text = [], resp_error = Some ''quota exceeded'', resp_provider = None,
             resp_rest = None\<rparr>, ())"
    by (simp add: refusingProvider_def)
  have ro: "routedOptions demoBridge ?o = ?o"
    by (simp add: demo_defs)
  show ?thesis
    using query_provider_resolves [OF h1 h2 h3 h4] by (simp add: ro)
qed

section \<open>Recovery Agent\<close>

text \<open>
  A selector in the result of the candidate loop was already there or was answered
  positively in one of the loop's exchanges.
\<close>

lemma testAlternatives_tested:
  assumes "testAlternatives agent tabId alts r0 w = (r, exchanges, w')"
    and "s \<in> set (alternativeSelectors r)"
  shows "s \<in> set (alternativeSelectors r0)
         \<or> (\<exists>answer. (s, answer) \<in> set exchanges \<and> testVerdict answer)"
  using assms
proof (induction alts arbitrary: r0 w r exchanges w')
  case Nil
  then show ?case by simp
next
  case (Cons a alts)
  obtain ok ex w1 where t: "testSelector agent a tabId w = (ok, ex, w1)"
    by (cases "testSelector agent a tabId w") auto
  then have ex: "ex = (a, snd ex)" and ok: "ok = testVerdict (snd ex)"
    by (auto simp: testSelector_def split: prod.splits)
  let ?r1 = "if ok then r0\<lparr>recoverySuccessful := True,
                       alternativeSelectors :=
                         (if a \<in> set (alternativeSelectors r0)
                          then alternativeSelectors r0
                          else alternativeSelectors r0 @ [a])\<rparr> else r0"
  obtain exs where rec: "testAlternatives agent tabId alts ?r1 w1 = (r, exs, w')"
    and exch: "exchanges = ex # exs"
    using Cons.prems(1) t by (auto split: prod.splits)
  from Cons.IH [OF rec Cons.prems(2)]
  consider "s \<in> set (alternativeSelectors ?r1)"
    | "\<exists>answer. (s, answer) \<in> set exs \<and> testVerdict answer" by blast
  then show ?case
  proof cases
    case 1
    show ?thesis
    proof (cases "s \<in> set (alternativeSelectors r0)")
      case True then show ?thesis by simp
    next
      case False
      with 1 have "ok" and "s = a" by (auto split: if_splits)
      with ex ok exch have "(s, snd ex) \<in> set exchanges \<and> testVerdict (snd ex)"
        by (metis list.set_intros(1))
      then show ?thesis by blast
    qed
  next
    case 2
    with exch show ?thesis by auto
  qed
qed

lemma tryStrategies_tested:
  assumes "tryStrategies agent strategies dp fs em html tabId r0 w = (r, exchanges, w')"
    and "s \<in> set (alternativeSelectors r)"
  shows "s \<in> set (alternativeSelectors r0)
         \<or> (\<exists>answer. (s, answer) \<in> set exchanges \<and> testVerdict answer)"
  using assms
proof (induction strategies arbitrary: r0 w r exchanges w')
  case Nil
  then show ?case by simp
next
  case (Cons st sts)
  obtain out w1 where o: "st dp fs em html w = (out, w1)"
    by (cases "st dp fs em html w") auto
  show ?case
  proof (cases out)
    case (Inl e)
    with Cons.prems(1) o have "tryStrategies agent sts dp fs em html tabId r0 w1 = (r, exchanges, w')"
      by simp
    from Cons.IH [OF this Cons.prems(2)] show ?thesis .
  next
    case (Inr alternatives)
    define step where "step = (case alternatives of
                   None \<Rightarrow> (r0, [], w1)
                 | Some alts \<Rightarrow>
                     if length alts > 0
                     then testAlternatives agent tabId alts r0 w1
                     else (r0, [], w1))"
    obtain r1 ex1 w2 where st1: "step = (r1, ex1, w2)" by (cases step) auto
    have inner: "\<And>x. x \<in> set (alternativeSelectors r1) \<Longrightarrow> x \<in> set (alternativeSelectors r0)
         \<or> (\<exists>answer. (x, answer) \<in> set ex1 \<and> testVerdict answer)"
      using st1 testAlternatives_tested [of agent tabId _ r0 w1 r1 ex1 w2]
      by (auto simp: step_def split: option.splits if_splits)
    show ?thesis
    proof (cases "recoverySuccessful r1")
      case True
      with Cons.prems(1) o Inr st1 have "r = r1" "exchanges = ex1"
        by (auto simp: step_def)
      with inner Cons.prems(2) show ?thesis by blast
    next
      case False
      with Cons.prems(1) o Inr st1 obtain ex2 where
        rec: "tryStrategies agent sts dp fs em html tabId r1 w2 = (r, ex2, w')"
        and exch: "exchanges = ex1 @ ex2"
        by (auto simp: step_def split: prod.splits)
      from Cons.IH [OF rec Cons.prems(2)] inner exch show ?thesis by auto
    qed
  qed
qed


lemma testAlternatives_from_page:
  assumes "testAlternatives agent tabId alts r0 w = (r, exchanges, w')"
    and "(s, answer) \<in> set exchanges"
  shows "\<exists>w1. fst (era_sendMessageToContentScript agent tabId (TestSelector s) w1) = answer"
  using assms
proof (induction alts arbitrary: r0 w r exchanges w')
  case Nil
  then show ?case by simp
next
  case (Cons a alts)
  obtain ok ex w1 where t: "testSelector agent a tabId w = (ok, ex, w1)"
    by (cases "testSelector agent a tabId w") auto
  then have ex: "ex = (a, fst (era_sendMessageToContentScript agent tabId (TestSelector a) w))"
    by (auto simp: testSelector_def split: prod.splits)
  from Cons.prems(1) t obtain r1 exs where
    rec: "testAlternatives agent tabId alts r1 w1 = (r, exs, w')" and exch: "exchanges = ex # exs"
    by (auto split: prod.splits)
  from Cons.prems(2) exch consider "(s, answer) = ex" | "(s, answer) \<in> set exs" by auto
  then show ?case
  proof cases
    case 1
    with ex show ?thesis by auto
  next
    case 2
    from Cons.IH [OF rec 2] show ?thesis .
  qed
qed

lemma tryStrategies_from_page:
  assumes "tryStrategies agent strategies dp fs em html tabId r0 w = (r, exchanges, w')"
    and "(s, answer) \<in> set exchanges"
  shows "\<exists>w1. fst (era_sendMessageToContentScript agent tabId (TestSelector s) w1) = answer"
  using assms
proof (induction strategies arbitrary: r0 w r exchanges w')
  case Nil
  then show ?case by simp
next
  case (Cons st sts)
  obtain out w1 where o: "st dp fs em html w = (out, w1)"
    by (cases "st dp fs em html w") auto
  show ?case
  proof (cases out)
    case (Inl e)
    with Cons.prems(1) o
    have "tryStrategies agent sts dp fs em html tabId r0 w1 = (r, exchanges, w')"
      by simp
    from Cons.IH [OF this Cons.prems(2)] show ?thesis .
  next
    case (Inr alternatives)
    define step where "step = (case alternatives of
                   None \<Rightarrow> (r0, [], w1)
                 | Some alts \<Rightarrow>
                     if length alts > 0
                     then testAlternatives agent tabId alts r0 w1
                     else (r0, [], w1))"
    obtain r1 ex1 w2 where st1: "step = (r1, ex1, w2)" by (cases step) auto
    have inner: "(s, answer) \<in> set ex1 \<Longrightarrow> ?thesis"
      using st1 testAlternatives_from_page [of agent tabId _ r0 w1 r1 ex1 w2 s answer]
      by (auto simp: step_def split: option.splits if_splits)
    show ?thesis
    proof (cases "recoverySuccessful r1")
      case True
      with Cons.prems(1) o Inr st1 have "exchanges = ex1"
        by (auto simp: step_def)
      with inner Cons.prems(2) show ?thesis by blast
    next
      case False
      with Cons.prems(1) o Inr st1 obtain ex2 where
        rec: "tryStrategies agent sts dp fs em html tabId r1 w2 = (r, ex2, w')"
        and exch: "exchanges = ex1 @ ex2"
        by (auto simp: step_def split: prod.splits)
      from Cons.prems(2) exch consider "(s, answer) \<in> set ex1" | "(s, answer) \<in> set ex2"
        by auto
      then show ?thesis
      proof cases
        case 1 with inner show ?thesis .
      next
        case 2 from Cons.IH [OF rec 2] show ?thesis .
      qed
    qed
  qed
qed

text \<open>
  C4: every selector in \<open>alternativeSelectors\<close> returned by \<open>attemptRecovery\<close> was sent
  to the content script by \<open>testSelector\<close> during this call, and the answer received
  was \<open>success === true\<close> with \<open>count > 0\<close>. So a candidate whose tests all reported
  zero matches, failed or threw is not in \<open>alternativeSelectors\<close>.
\<close>

theorem attemptRecovery_only_tested:
  assumes "attemptRecovery agent dataPoint failedSelector errorMessage htmlSample tabId w
             = (r, exchanges, w')"
    and "s \<in> set (alternativeSelectors r)"
  shows "\<exists>response c w1.
            (s, Inr (Some response)) \<in> set exchanges
          \<and> fst (era_sendMessageToContentScript agent tabId (TestSelector s) w1)
              = Inr (Some response)
          \<and> reply_success response \<and> reply_count response = Some c \<and> c > 0"
proof -
  note run = assms(1) [unfolded attemptRecovery_def]
  from tryStrategies_tested [OF run assms(2)]
  obtain answer where a: "(s, answer) \<in> set exchanges" and v: "testVerdict answer"
    by auto
  from v obtain response c where ans: "answer = Inr (Some response)"
    and "reply_success response" and "reply_count response = Some c" and "c > 0"
    by (cases answer rule: testVerdict.cases) (auto split: option.splits)
  moreover from tryStrategies_from_page [OF run a]
  obtain w1 where "fst (era_sendMessageToContentScript agent tabId (TestSelector s) w1) = answer"
    by blast
  ultimately show ?thesis using a by blast
qed

lemmas recovery_demo_defs = attemptRecovery_def demoRecoveryAgent_def demoStrategy_def
  demoPage_def demoDataPoint_def testSelector_def truncateHtmlSample_def

theorem attemptRecovery_only_tested_witness:
  "alternativeSelectors
     (fst (attemptRecovery demoRecoveryAgent demoDataPoint ''h1'' ''no match'' ''<html/>'' 7 ()))
     = [''h1.title'', ''.price'']
   \<and> (\<exists>response c w1.
          (''.price'', Inr (Some response))
            \<in> set (fst (snd (attemptRecovery demoRecoveryAgent demoDataPoint ''h1'' ''no match''
                               ''<html/>'' 7 ())))
        \<and> fst (demoPage 7 (TestSelector ''.price'') w1) = Inr (Some response)
        \<and> reply_success response \<and> reply_count response = Some c \<and> c > 0)"
proof -
  obtain r exchanges w' where
    run: "attemptRecovery demoRecoveryAgent demoDataPoint ''h1'' ''no match'' ''<html/>'' 7 ()
            = (r, exchanges, w')"
    by (cases "attemptRecovery demoRecoveryAgent demoDataPoint ''h1'' ''no match'' ''<html/>'' 7 ()")
      auto
  have alts: "alternativeSelectors r = [''h1.title'', ''.price'']"
    using run by (auto simp: recovery_demo_defs)
  then have mem: "''.price'' \<in> set (alternativeSelectors r)"
    by simp
  have send: "era_sendMessageToContentScript demoRecoveryAgent = demoPage"
    by (simp add: demoRecoveryAgent_def)
  show ?thesis
    using attemptRecovery_only_tested [OF run mem] alts by (simp add: run send)
qed

section \<open>Selector Agent\<close>

lemma startsWith_Cons [simp]: "startsWith (c # cs) [q] = (c = q)"
  by (simp add: startsWith_def)

lemma startsWith_Nil [simp]: "startsWith [] [q] = False"
  by (simp add: startsWith_def)

lemma endsWith_snoc [simp]: "endsWith (xs @ [c]) [q] = (c = q)"
  by (simp add: endsWith_def)

lemma endsWith_Nil [simp]: "endsWith [] [q] = False"
  by (simp add: endsWith_def)

lemma substring_inner: "substring (q # body @ [r]) 1 (length (q # body @ [r]) - 1) = body"
  by (simp add: substring_def Let_def min_def max_def)

text \<open>A reply enclosed in one pair of equal quote characters loses that pair.\<close>

lemma stripSurroundingQuotes_pair:
  assumes "isQuoteChar q"
  shows "stripSurroundingQuotes (q # body @ [q]) = body"
proof -
  have "(startsWith (q # body @ [q]) ''`'' \<and> endsWith (q # body @ [q]) ''`'')
         \<or> (startsWith (q # body @ [q]) [CHR 0x27] \<and> endsWith (q # body @ [q]) [CHR 0x27])
         \<or> (startsWith (q # body @ [q]) [CHR 0x22] \<and> endsWith (q # body @ [q]) [CHR 0x22])"
    using assms endsWith_snoc [of "q # body" q]
    by (auto simp: isQuoteChar_def simp del: endsWith_snoc)
  then show ?thesis
    unfolding stripSurroundingQuotes_def using substring_inner [of q body q] by simp
qed

text \<open>Every other reply is kept, a reply that is a single quote character included.\<close>

lemma stripSurroundingQuotes_other:
  assumes "\<not> (\<exists>q body. isQuoteChar q \<and> s = q # body @ [q])"
  shows "stripSurroundingQuotes s = s"
proof (cases "length s \<le> 1")
  case True
  then consider "s = []" | c where "s = [c]"
    by (cases s) auto
  then show ?thesis
    by cases (auto simp: stripSurroundingQuotes_def substring_def endsWith_def Let_def)
next
  case False
  then obtain q t where qt: "s = q # t" and "t \<noteq> []"
    by (cases s) auto
  then obtain mid r where "t = mid @ [r]"
    by (cases t rule: rev_cases) auto
  with qt have s: "s = q # mid @ [r]" by simp
  have e: "\<And>x. endsWith (q # mid @ [r]) [x] = (r = x)"
    using endsWith_snoc [of "q # mid" r] by simp
  from assms s have "\<not> (isQuoteChar q \<and> q = r)" by blast
  then show ?thesis
    unfolding s stripSurroundingQuotes_def using e
    by (auto simp: isQuoteChar_def)
qed

text \<open>
  C8 (amended): in the TypeScript agent the selector's type is XPath iff it begins with
  \<open>/\<close>, \<open>./\<close> or \<open>(\<close>, and CSS otherwise; \<open>convertSelector\<close> returns the selector
  unchanged, with no model call, when that type is the target type; otherwise it makes
  exactly one model call, and from a usable reply (no \<open>error\<close>, non-empty text) it returns
  the trimmed text with one pair of equal surrounding quote or backtick characters cut.
  The JavaScript agent (agents/selector-agent.js) has no such short-circuit: it makes
  exactly one model call for every selector and target type.
\<close>

theorem convertSelector_contract:
  "(originalTypeOf selector = xpath \<longleftrightarrow>
      startsWith selector ''/'' \<or> startsWith selector ''./'' \<or> startsWith selector ''('')
   \<and> (originalTypeOf selector = targetType \<longrightarrow>
        convertSelector_ts agent selector targetType w =
          (\<lparr>cv_success = True, cv_error = None, cv_originalSelector = Some selector,
            cv_convertedSelector = Some selector, cv_originalType = Some targetType,
            cv_targetType = Some targetType\<rparr>, [], w))
   \<and> (originalTypeOf selector \<noteq> targetType \<longrightarrow>
        fst (snd (convertSelector_ts agent selector targetType w)) =
          [(conversionPrompt_ts (originalTypeOf selector) targetType selector,
            agentOptions (sa_getSystemPrompt agent ''SELECTOR'') 0 256)])
   \<and> (originalTypeOf selector \<noteq> targetType
        \<and> sa_llmBridge_query agent
             (conversionPrompt_ts (originalTypeOf selector) targetType selector)
             (agentOptions (sa_getSystemPrompt agent ''SELECTOR'') 0 256) w = (Inr reply, w1)
        \<and> \<not> truthy (resp_error reply) \<and> resp_text reply \<noteq> [] \<longrightarrow>
        cv_success (fst (convertSelector_ts agent selector targetType w))
        \<and> cv_convertedSelector (fst (convertSelector_ts agent selector targetType w)) =
            Some (stripSurroundingQuotes (trim (resp_text reply)))
        \<and> (\<forall>q body. isQuoteChar q \<and> trim (resp_text reply) = q # body @ [q] \<longrightarrow>
              cv_convertedSelector (fst (convertSelector_ts agent selector targetType w))
                = Some body))
   \<and> length (fst (snd (convertSelector_js agent selector targetType w))) = 1"
proof (intro conjI impI)
  show "originalTypeOf selector = xpath \<longleftrightarrow>
      startsWith selector ''/'' \<or> startsWith selector ''./'' \<or> startsWith selector ''(''"
    by (simp add: originalTypeOf_def)
next
  assume "originalTypeOf selector = targetType"
  then show "convertSelector_ts agent selector targetType w =
          (\<lparr>cv_success = True, cv_error = None, cv_originalSelector = Some selector,
            cv_convertedSelector = Some selector, cv_originalType = Some targetType,
            cv_targetType = Some targetType\<rparr>, [], w)"
    by (simp add: convertSelector_ts_def)
next
  assume "originalTypeOf selector \<noteq> targetType"
  then show "fst (snd (convertSelector_ts agent selector targetType w)) =
          [(conversionPrompt_ts (originalTypeOf selector) targetType selector,
            agentOptions (sa_getSystemPrompt agent ''SELECTOR'') 0 256)]"
    by (simp add: convertSelector_ts_def Let_def split: prod.splits sum.splits)
next
  assume a: "originalTypeOf selector \<noteq> targetType
        \<and> sa_llmBridge_query agent
             (conversionPrompt_ts (originalTypeOf selector) targetType selector)
             (agentOptions (sa_getSystemPrompt agent ''SELECTOR'') 0 256) w = (Inr reply, w1)
        \<and> \<not> truthy (resp_error reply) \<and> resp_text reply \<noteq> []"
  then have r: "fst (convertSelector_ts agent selector targetType w) =
      \<lparr>cv_success = True, cv_error = None, cv_originalSelector = Some selector,
        cv_convertedSelector = Some (stripSurroundingQuotes (trim (resp_text reply))),
        cv_originalType = Some (originalTypeOf selector), cv_targetType = Some targetType\<rparr>"
    by (simp add: convertSelector_ts_def Let_def)
  show "cv_success (fst (convertSelector_ts agent selector targetType w))"
    by (simp add: r)
  show "cv_convertedSelector (fst (convertSelector_ts agent selector targetType w)) =
            Some (stripSurroundingQuotes (trim (resp_text reply)))"
    by (simp add: r)
  show "\<forall>q body. isQuoteChar q \<and> trim (resp_text reply) = q # body @ [q] \<longrightarrow>
              cv_convertedSelector (fst (convertSelector_ts agent selector targetType w))
                = Some body"
    using stripSurroundingQuotes_pair by (simp add: r)
next
  show "length (fst (snd (convertSelector_js agent selector targetType w))) = 1"
    by (simp add: convertSelector_js_def Let_def split: prod.splits sum.splits)
qed

lemmas string_eval = isWhiteSpace_def trimStart_def trimEnd_def trim_def startsWith_def
  endsWith_def substring_def charToLower_def charToUpper_def toLowerCase_def toUpperCase_def

lemmas selector_demo_defs = demoSelectorAgent_def convertSelector_ts_def convertSelector_js_def
  originalTypeOf_def conversionPrompt_ts_def conversionPrompt_js_def agentOptions_def
  stripSurroundingQuotes_def removeBeforeFirstQuote_def removeFromFirstQuote_def
  isQuoteChar_def conversionFailure_ts_def conversionFailure_js_def

text \<open>
  C8, as stated, fails on agents/selector-agent.js: for the CSS selector \<open>div.item\<close> and the
  target type \<open>css\<close> the JavaScript \<open>convertSelector\<close> calls the model and returns the
  model's answer, not the selector.
\<close>

theorem convertSelector_js_counterexample:
  "originalTypeOf ''div.item'' = css
   \<and> fst (snd (convertSelector_js demoSelectorAgent ''div.item'' css ())) =
       [(conversionPrompt_js ''div.item'' css, agentOptions ''You are a selector expert.'' (1 / 10) 256)]
   \<and> cv_convertedSelector (fst (convertSelector_js demoSelectorAgent ''div.item'' css ()))
       = Some ''//main/div''"
  by (simp add: selector_demo_defs string_eval Let_def)

theorem convertSelector_contract_witness:
  "convertSelector_ts demoSelectorAgent ''//ul/li'' xpath () =
     (\<lparr>cv_success = True, cv_error = None, cv_originalSelector = Some ''//ul/li'',
       cv_convertedSelector = Some ''//ul/li'', cv_originalType = Some xpath,
       cv_targetType = Some xpath\<rparr>, [], ())
   \<and> length (fst (snd (convertSelector_ts demoSelectorAgent ''div.item'' xpath ()))) = 1
   \<and> cv_convertedSelector (fst (convertSelector_ts demoSelectorAgent ''div.item'' xpath ()))
       = Some ''//main/div''"
proof -
  let ?reply = "\<lparr>resp_text = '' `//main/div` '' @ [CHR 0x0A], resp_error = None,
                  resp_provider = Some ''ollama'', resp_rest = None :: unit option\<rparr>"
  have h1: "originalTypeOf ''//ul/li'' = xpath"
    by (simp add: originalTypeOf_def startsWith_def)
  have h2: "originalTypeOf ''div.item'' \<noteq> xpath"
    by (simp add: originalTypeOf_def startsWith_def)
  have h3: "sa_llmBridge_query demoSelectorAgent
             (conversionPrompt_ts (originalTypeOf ''div.item'') xpath ''div.item'')
             (agentOptions (sa_getSystemPrompt demoSelectorAgent ''SELECTOR'') 0 256) ()
            = (Inr ?reply, ())"
    by (simp add: demoSelectorAgent_def)
  have h4: "\<not> truthy (resp_error ?reply)" and h5: "resp_text ?reply \<noteq> []"
    by simp_all
  have h6: "isQuoteChar (CHR ''`'')"
    by (simp add: isQuoteChar_def)
  have h7: "trim (resp_text ?reply) = CHR ''`'' # ''//main/div'' @ [CHR ''`'']"
    by (simp add: string_eval)
  from convertSelector_contract [of "''//ul/li''" xpath demoSelectorAgent "()"] h1
  have a: "convertSelector_ts demoSelectorAgent ''//ul/li'' xpath () =
     (\<lparr>cv_success = True, cv_error = None, cv_originalSelector = Some ''//ul/li'',
       cv_convertedSelector = Some ''//ul/li'', cv_originalType = Some xpath,
       cv_targetType = Some xpath\<rparr>, [], ())"
    by blast
  note T = convertSelector_contract [of "''div.item''" xpath demoSelectorAgent "()" ?reply "()"]
  from T h2
  have "fst (snd (convertSelector_ts demoSelectorAgent ''div.item'' xpath ())) =
          [(conversionPrompt_ts (originalTypeOf ''div.item'') xpath ''div.item'',
            agentOptions (sa_getSystemPrompt demoSelectorAgent ''SELECTOR'') 0 256)]"
    by blast
  then have b: "length (fst (snd (convertSelector_ts demoSelectorAgent ''div.item'' xpath ()))) = 1"
    by simp
  from T h2 h3 h4 h5
  have c: "\<forall>q body. isQuoteChar q \<and> trim (resp_text ?reply) = q # body @ [q] \<longrightarrow>
              cv_convertedSelector (fst (convertSelector_ts demoSelectorAgent ''div.item'' xpath ()))
                = Some body"
    by blast
  from c h6 h7
  have "cv_convertedSelector (fst (convertSelector_ts demoSelectorAgent ''div.item'' xpath ()))
          = Some ''//main/div''"
    by blast
  with a b show ?thesis by blast
qed

section \<open>Orchestrator\<close>

text \<open>
  Whatever is thrown in the \<open>try\<close> block, \<open>finalSelectors\<close> is still empty at the throw,
  and \<open>validatedData\<close> and \<open>validationIssues\<close> are empty unless the throw is the failed
  read of \<open>plan.dataPoints\<close> after validation.
\<close>

lemma withLoopVars_fields [simp]:
  "v_finalSelectors (withLoopVars vars l) = v_finalSelectors vars"
  "v_validatedData (withLoopVars vars l) = v_validatedData vars"
  "v_validationIssues (withLoopVars vars l) = v_validationIssues vars"
  "v_plan (withLoopVars vars l) = l_plan l"
  "v_extractionErrors (withLoopVars vars l) = l_extractionErrors l"
  by (simp_all add: withLoopVars_def)

lemma initialVars_fields [simp]:
  "v_finalSelectors initialVars = Map.empty"
  "v_validatedData initialVars = Map.empty"
  "v_validationIssues initialVars = []"
  "v_extractionErrors initialVars = []"
  "v_plan initialVars = None"
  by (simp_all add: initialVars_def)



text \<open>The scenario of a planner that throws: nothing has been gathered yet.\<close>

lemma plan_stage_throws:
  assumes "fetchHtmlSample orch url w = (Inr htmlSample, w1)"
    and "o_createPlan orch instruction url htmlSample w1 = (Inl err, w2)"
  shows "processRequest_try orch instruction url llmProvider tabId w = (Inl (err, initialVars), w2)"
  using assms by (simp add: processRequest_try_def)




section \<open>Plan Agent\<close>

lemma trimEnd_keeps:
  assumes "\<not> isWhiteSpace c"
  shows "\<exists>r. trimEnd (pre @ c # sfx) = pre @ c # r"
proof -
  have "rev (pre @ c # sfx) = rev sfx @ (c # rev pre)" by simp
  moreover have "\<exists>k. dropWhile isWhiteSpace (rev sfx @ (c # rev pre)) = k @ (c # rev pre)"
  proof (cases "\<forall>x \<in> set (rev sfx). isWhiteSpace x")
    case True
    then have "dropWhile isWhiteSpace (rev sfx @ (c # rev pre))
                 = dropWhile isWhiteSpace (c # rev pre)"
      by (intro dropWhile_append2) simp
    with assms have "dropWhile isWhiteSpace (rev sfx @ (c # rev pre)) = c # rev pre"
      by simp
    then show ?thesis by (intro exI [of _ "[]"]) simp
  next
    case False
    then obtain x where "x \<in> set (rev sfx)" and "\<not> isWhiteSpace x" by blast
    then have "dropWhile isWhiteSpace (rev sfx @ (c # rev pre))
                 = dropWhile isWhiteSpace (rev sfx) @ (c # rev pre)"
      by (rule dropWhile_append1)
    then show ?thesis by blast
  qed
  ultimately obtain k where "dropWhile isWhiteSpace (rev (pre @ c # sfx)) = k @ (c # rev pre)"
    by auto
  then have "trimEnd (pre @ c # sfx) = pre @ c # rev k"
    by (simp add: trimEnd_def)
  then show ?thesis by blast
qed

lemma trim_keeps:
  assumes "\<not> isWhiteSpace c" and "pre = [] \<or> \<not> isWhiteSpace (hd pre)"
  shows "\<exists>r. trim (pre @ c # sfx) = pre @ c # r"
proof -
  have "trimStart (pre @ c # sfx) = pre @ c # sfx"
    using assms by (cases pre) (auto simp: trimStart_def)
  with trimEnd_keeps [OF assms(1)] show ?thesis
    by (simp add: trim_def)
qed

lemma splitLines_not_Nil: "splitLines s \<noteq> []"
  by (induction s) (auto split: list.splits)

lemma splitLines_first:
  assumes "\<forall>x \<in> set pre. x \<noteq> CHR 0x0A"
  shows "\<exists>l ls. splitLines (pre @ rest) = (pre @ l) # ls"
  using assms
proof (induction pre)
  case Nil
  then show ?case using splitLines_not_Nil [of rest] by (cases "splitLines rest") auto
next
  case (Cons a pre)
  then obtain l ls where "splitLines (pre @ rest) = (pre @ l) # ls" by auto
  with Cons.prems show ?case by simp
qed

lemma newline_is_white: "isWhiteSpace (CHR 0x0A)"
  by (simp add: isWhiteSpace_def)

text \<open>A line that holds a field name, possibly after a dash bullet, gives a named field.\<close>

lemma parseKeyField_named:
  assumes c: "\<not> isWhiteSpace c" "isFieldNameChar c" "c \<noteq> CHR ''-''"
    and pre: "pre = [] \<or> (\<exists>ws. pre = CHR ''-'' # ws \<and> (\<forall>x \<in> set ws. isWhiteSpace x))"
  shows "kf_name (parseKeyField (pre @ c # sfx)) \<noteq> []"
proof -
  have dash: "\<not> isWhiteSpace (CHR ''-'')" by (simp add: isWhiteSpace_def)
  from pre have "pre = [] \<or> \<not> isWhiteSpace (hd pre)" using dash by auto
  from trim_keeps [OF c(1) this] obtain r where t: "trim (pre @ c # sfx) = pre @ c # r"
    by blast
  have sb: "stripBullet (pre @ c # r) = c # r"
    using pre c by (auto simp: stripBullet_def dropWhile_append2)
  have dn: "dropWhile (\<lambda>x. \<not> isFieldNameChar x) (c # r) = c # r"
    using c(2) by simp
  from trim_keeps [OF c(1), of "[]" "takeWhile isFieldNameChar r"]
  obtain r' where "trim (c # takeWhile isFieldNameChar r) = c # r'" by auto
  then show ?thesis
    using c(2) by (simp add: parseKeyField_def t sb dn Let_def)
qed

lemma afterFirstMatch_None:
  "afterFirstMatch literal s = None \<longleftrightarrow>
     (\<forall>k \<le> length s. \<not> matchesIgnoringCase (drop k s) literal)"
proof (induction s)
  case Nil
  then show ?case by (cases literal) auto
next
  case (Cons a s)
  show ?case
  proof (cases "matchesIgnoringCase (a # s) literal")
    case True
    then have "\<not> (\<forall>k \<le> length (a # s). \<not> matchesIgnoringCase (drop k (a # s)) literal)"
      by (auto intro: exI [of _ 0])
    with True show ?thesis by simp
  next
    case False
    have "(\<forall>k \<le> length (a # s). \<not> matchesIgnoringCase (drop k (a # s)) literal)
          \<longleftrightarrow> (\<forall>k \<le> length s. \<not> matchesIgnoringCase (drop k s) literal)"
    proof
      assume h: "\<forall>k \<le> length (a # s). \<not> matchesIgnoringCase (drop k (a # s)) literal"
      show "\<forall>k \<le> length s. \<not> matchesIgnoringCase (drop k s) literal"
      proof (intro allI impI)
        fix k assume "k \<le> length s"
        with h [rule_format, of "Suc k"] show "\<not> matchesIgnoringCase (drop k s) literal" by simp
      qed
    next
      assume h: "\<forall>k \<le> length s. \<not> matchesIgnoringCase (drop k s) literal"
      show "\<forall>k \<le> length (a # s). \<not> matchesIgnoringCase (drop k (a # s)) literal"
      proof (intro allI impI)
        fix k assume k: "k \<le> length (a # s)"
        show "\<not> matchesIgnoringCase (drop k (a # s)) literal"
        proof (cases k)
          case 0 with False show ?thesis by simp
        next
          case (Suc j) with k h show ?thesis by simp
        qed
      qed
    qed
    with False Cons.IH show ?thesis by simp
  qed
qed


lemma createExtractionPlanWith_success:
  assumes ok: "pp_success (fst (createExtractionPlanWith rf agent url goal htmlSample w))"
    and rf: "\<And>r. rf r = None \<Longrightarrow> resp_text r \<noteq> []"
  shows "\<exists>text. text \<noteq> [] \<and>
           fst (createExtractionPlanWith rf agent url goal htmlSample w) = parseExtractionPlan text"
proof (cases "plannerPrompt agent url goal htmlSample")
  case (Inl e)
  with ok show ?thesis by (simp add: createExtractionPlanWith_def failedPlan_def)
next
  case (Inr prompt)
  note p = this
  show ?thesis
  proof (cases "pl_getSystemPrompt agent ''PLANNER''")
    case (Inl e)
    with ok p show ?thesis by (simp add: createExtractionPlanWith_def failedPlan_def)
  next
    case (Inr sp)
    note s = this
    obtain out w1 where q: "pl_llmBridge_query agent prompt (agentOptions sp (3 / 10) 2048) w
                              = (out, w1)"
      by (cases "pl_llmBridge_query agent prompt (agentOptions sp (3 / 10) 2048) w") auto
    show ?thesis
    proof (cases out)
      case (Inl e)
      with ok p s q show ?thesis by (simp add: createExtractionPlanWith_def failedPlan_def)
    next
      case (Inr llmResponse)
      note r = this
      show ?thesis
      proof (cases "rf llmResponse")
        case (Some msg)
        with ok p s q r show ?thesis by (simp add: createExtractionPlanWith_def failedPlan_def)
      next
        case None
        with p s q r have "fst (createExtractionPlanWith rf agent url goal htmlSample w)
                             = parseExtractionPlan (resp_text llmResponse)"
          by (simp add: createExtractionPlanWith_def)
        with rf [OF None] show ?thesis by blast
      qed
    qed
  qed
qed

text \<open>
  C2 (amended): \<open>parseExtractionPlan\<close> returns \<open>success = true\<close> for every response text,
  and a plan with \<open>success = true\<close> returned by \<open>createExtractionPlan\<close> is the parse of a
  non-empty response text. Every entry of \<open>keyFields\<close> has a non-empty name.
  \<open>keyFields\<close> is empty when the text holds no \<open>Key Fields\<close> header (in any case of the
  letters), and non-empty when the section captured after the header begins with a field
  name, possibly after a dash bullet: a code unit that is not white space, \<open>-\<close>, \<open>:\<close>,
  \<open>[\<close> or \<open>]\<close>.
\<close>

theorem plan_keyFields:
  "pp_success (parseExtractionPlan responseText)
   \<and> (\<forall>f \<in> set (pp_keyFields (parseExtractionPlan responseText)). kf_name f \<noteq> [])
   \<and> ((\<forall>k \<le> length responseText. \<not> matchesIgnoringCase (drop k responseText) ''Key Fields'')
        \<longrightarrow> pp_keyFields (parseExtractionPlan responseText) = [])
   \<and> (fieldsSection responseText = Some (pre @ c # sfx)
        \<and> (pre = [] \<or> (\<exists>ws. pre = CHR ''-'' # ws
              \<and> (\<forall>x \<in> set ws. isWhiteSpace x \<and> x \<noteq> CHR 0x0A)))
        \<and> \<not> isWhiteSpace c \<and> isFieldNameChar c \<and> c \<noteq> CHR ''-''
        \<longrightarrow> pp_keyFields (parseExtractionPlan responseText) \<noteq> [])
   \<and> (pp_success (fst (createExtractionPlan_js agent url goal htmlSample w))
        \<longrightarrow> (\<exists>text. text \<noteq> [] \<and>
               fst (createExtractionPlan_js agent url goal htmlSample w)
                 = parseExtractionPlan text))
   \<and> (pp_success (fst (createExtractionPlan_ts agent url goal htmlSample w))
        \<longrightarrow> (\<exists>text. text \<noteq> [] \<and>
               fst (createExtractionPlan_ts agent url goal htmlSample w)
                 = parseExtractionPlan text))"
proof (intro conjI impI)
  show "pp_success (parseExtractionPlan responseText)"
    by (simp add: parseExtractionPlan_def)
next
  show "\<forall>f \<in> set (pp_keyFields (parseExtractionPlan responseText)). kf_name f \<noteq> []"
    by (auto simp: parseExtractionPlan_def split: option.splits)
next
  assume "\<forall>k \<le> length responseText. \<not> matchesIgnoringCase (drop k responseText) ''Key Fields''"
  then have "afterFirstMatch ''Key Fields'' responseText = None"
    by (simp only: afterFirstMatch_None)
  then show "pp_keyFields (parseExtractionPlan responseText) = []"
    by (simp add: parseExtractionPlan_def fieldsSection_def)
next
  assume a: "fieldsSection responseText = Some (pre @ c # sfx)
        \<and> (pre = [] \<or> (\<exists>ws. pre = CHR ''-'' # ws
              \<and> (\<forall>x \<in> set ws. isWhiteSpace x \<and> x \<noteq> CHR 0x0A)))
        \<and> \<not> isWhiteSpace c \<and> isFieldNameChar c \<and> c \<noteq> CHR ''-''"
  then have sec: "fieldsSection responseText = Some (pre @ c # sfx)"
    and pre0: "pre = [] \<or> (\<exists>ws. pre = CHR ''-'' # ws
              \<and> (\<forall>x \<in> set ws. isWhiteSpace x \<and> x \<noteq> CHR 0x0A))"
    and c: "\<not> isWhiteSpace c" "isFieldNameChar c" "c \<noteq> CHR ''-''"
    by simp_all
  have dash: "\<not> isWhiteSpace (CHR ''-'')" by (simp add: isWhiteSpace_def)
  from pre0 have hd: "pre = [] \<or> \<not> isWhiteSpace (hd pre)"
  proof
    assume "pre = []" then show ?thesis by simp
  next
    assume "\<exists>ws. pre = CHR ''-'' # ws \<and> (\<forall>x \<in> set ws. isWhiteSpace x \<and> x \<noteq> CHR 0x0A)"
    then obtain ws where "pre = CHR ''-'' # ws" by blast
    with dash show ?thesis by simp
  qed
  from pre0 have pre1: "pre = [] \<or> (\<exists>ws. pre = CHR ''-'' # ws \<and> (\<forall>x \<in> set ws. isWhiteSpace x))"
    by blast
  have dashnl: "CHR ''-'' \<noteq> CHR 0x0A" by simp
  from pre0 have "\<forall>x \<in> set pre. x \<noteq> CHR 0x0A"
  proof
    assume "pre = []" then show ?thesis by simp
  next
    assume "\<exists>ws. pre = CHR ''-'' # ws \<and> (\<forall>x \<in> set ws. isWhiteSpace x \<and> x \<noteq> CHR 0x0A)"
    then obtain ws where "pre = CHR ''-'' # ws" and "\<forall>x \<in> set ws. x \<noteq> CHR 0x0A" by blast
    with dashnl show ?thesis by simp
  qed
  moreover from c(1) newline_is_white have "c \<noteq> CHR 0x0A" by blast
  ultimately have nonl: "\<forall>x \<in> set (pre @ [c]). x \<noteq> CHR 0x0A"
    by simp
  from trim_keeps [OF c(1) hd] obtain r where t: "trim (pre @ c # sfx) = pre @ c # r"
    by blast
  from splitLines_first [OF nonl, of r] obtain l ls where
    sl: "splitLines (pre @ c # r) = (pre @ c # l) # ls" by auto
  have "kf_name (parseKeyField (pre @ c # l)) \<noteq> []"
    by (rule parseKeyField_named [OF c pre1])
  then have "filter (\<lambda>f. kf_name f \<noteq> []) (map parseKeyField (splitLines (pre @ c # r))) \<noteq> []"
    by (simp add: sl)
  with sec t show "pp_keyFields (parseExtractionPlan responseText) \<noteq> []"
    by (simp add: parseExtractionPlan_def)
next
  assume "pp_success (fst (createExtractionPlan_js agent url goal htmlSample w))"
  then show "\<exists>text. text \<noteq> [] \<and>
               fst (createExtractionPlan_js agent url goal htmlSample w)
                 = parseExtractionPlan text"
    unfolding createExtractionPlan_js_def
    by (rule createExtractionPlanWith_success) (simp_all add: responseFailure_js_def split: if_splits)
next
  assume "pp_success (fst (createExtractionPlan_ts agent url goal htmlSample w))"
  then show "\<exists>text. text \<noteq> [] \<and>
               fst (createExtractionPlan_ts agent url goal htmlSample w)
                 = parseExtractionPlan text"
    unfolding createExtractionPlan_ts_def
    by (rule createExtractionPlanWith_success) (simp_all add: responseFailure_ts_def split: if_splits)
qed

lemmas planner_demo_defs = createExtractionPlan_ts_def createExtractionPlan_js_def
  createExtractionPlanWith_def demoPlanner_def plannerPrompt_def responseFailure_ts_def
  responseFailure_js_def agentOptions_def

text \<open>
  C2, as stated, fails: for the response \<open>This is not a valid plan format.\<close> both agents
  return a plan with \<open>success = true\<close> and an empty \<open>keyFields\<close> (the case asserted by
  the repository's own test of the planner).
\<close>

theorem plan_keyFields_counterexample:
  "pp_success (fst (createExtractionPlan_ts (demoPlanner ''This is not a valid plan format.'')
       ''http://example.com'' ''Test'' ''<html></html>'' ()))
   \<and> pp_keyFields (fst (createExtractionPlan_ts (demoPlanner ''This is not a valid plan format.'')
       ''http://example.com'' ''Test'' ''<html></html>'' ())) = []
   \<and> pp_success (fst (createExtractionPlan_js (demoPlanner ''This is not a valid plan format.'')
       ''http://example.com'' ''Test'' ''<html></html>'' ()))
   \<and> pp_keyFields (fst (createExtractionPlan_js (demoPlanner ''This is not a valid plan format.'')
       ''http://example.com'' ''Test'' ''<html></html>'' ())) = []"
proof -
  have p: "parseExtractionPlan ''This is not a valid plan format.''
             = \<lparr>pp_success = True, pp_error = None, pp_keyFields = []\<rparr>"
    by code_simp
  have ts: "fst (createExtractionPlan_ts (demoPlanner ''This is not a valid plan format.'')
       ''http://example.com'' ''Test'' ''<html></html>'' ())
         = parseExtractionPlan ''This is not a valid plan format.''"
    by (simp add: planner_demo_defs)
  have js: "fst (createExtractionPlan_js (demoPlanner ''This is not a valid plan format.'')
       ''http://example.com'' ''Test'' ''<html></html>'' ())
         = parseExtractionPlan ''This is not a valid plan format.''"
    by (simp add: planner_demo_defs)
  show ?thesis
    by (simp add: ts js p)
qed

theorem plan_keyFields_witness:
  "pp_keyFields (parseExtractionPlan demoPlanText) \<noteq> []
   \<and> pp_keyFields (parseExtractionPlan ''This is not a valid plan format.'') = []
   \<and> pp_success (fst (createExtractionPlan_ts (demoPlanner demoPlanText)
       ''http://example.com'' ''Test'' ''<html></html>'' ()))
   \<and> (\<exists>text. text \<noteq> [] \<and> fst (createExtractionPlan_ts (demoPlanner demoPlanText)
       ''http://example.com'' ''Test'' ''<html></html>'' ()) = parseExtractionPlan text)"
proof -
  let ?rest = "''itle [String] : The main title'' @ [CHR 0x0A]"
  have s: "fieldsSection demoPlanText = Some (''- '' @ CHR ''t'' # ?rest)"
    by code_simp
  have p: "''- '' = [] \<or> (\<exists>ws. ''- '' = CHR ''-'' # ws
              \<and> (\<forall>x \<in> set ws. isWhiteSpace x \<and> x \<noteq> CHR 0x0A))"
    by (simp add: isWhiteSpace_def)
  have c: "\<not> isWhiteSpace (CHR ''t'')" "isFieldNameChar (CHR ''t'')" "CHR ''t'' \<noteq> CHR ''-''"
    by (simp_all add: isWhiteSpace_def isFieldNameChar_def)
  have n: "afterFirstMatch ''Key Fields'' ''This is not a valid plan format.'' = None"
    by code_simp
  then have n': "\<forall>k \<le> length ''This is not a valid plan format.''.
      \<not> matchesIgnoringCase (drop k ''This is not a valid plan format.'') ''Key Fields''"
    by (simp only: afterFirstMatch_None)
  have ok: "pp_success (fst (createExtractionPlan_ts (demoPlanner demoPlanText)
       ''http://example.com'' ''Test'' ''<html></html>'' ()))"
    by (simp add: planner_demo_defs demoPlanText_def parseExtractionPlan_def)
  note T1 = plan_keyFields [of demoPlanText "''- ''" "CHR ''t''" ?rest "demoPlanner demoPlanText"
      "''http://example.com''" "''Test''" "''<html></html>''" "()"]
  note T2 = plan_keyFields [of "''This is not a valid plan format.''"]
  have a: "pp_keyFields (parseExtractionPlan demoPlanText) \<noteq> []"
    using T1 [THEN conjunct2, THEN conjunct2, THEN conjunct2, THEN conjunct1] s p c
    by (elim impE) (intro conjI, assumption+)
  have b: "pp_keyFields (parseExtractionPlan ''This is not a valid plan format.'') = []"
    using T2 [THEN conjunct2, THEN conjunct2, THEN conjunct1] n'
    by (elim impE) assumption+
  have d: "\<exists>text. text \<noteq> [] \<and> fst (createExtractionPlan_ts (demoPlanner demoPlanText)
       ''http://example.com'' ''Test'' ''<html></html>'' ()) = parseExtractionPlan text"
    using T1 [THEN conjunct2, THEN conjunct2, THEN conjunct2, THEN conjunct2, THEN conjunct2] ok
    by (elim impE) assumption+
  from a b ok d show ?thesis by (intro conjI)
qed

section \<open>Validation Agent\<close>

subsection \<open>The loop over the data points\<close>





subsection \<open>A root-relative URL\<close>





subsection \<open>Throwing and returning\<close>

lemma cleanedString_cases:
  "cleanedString item = item \<or> (\<exists>s s'. item = JStr s \<and> cleanedString item = JStr s')"
  by (cases item) (simp_all add: cleanedString_def)

lemma cleanedString_nullish [simp]: "isNullish (cleanedString item) = isNullish item"
  by (cases item) (simp_all add: cleanedString_def isNullish_def)
























subsection \<open>Malformed arguments\<close>





subsection \<open>A root-relative URL\<close>



subsection \<open>Lists\<close>


lemma cleanItems_issue_property:
  assumes "\<forall>x \<in> set xs. \<forall>i \<in> set (snd (f x)). Q i"
  shows "\<forall>i \<in> set (snd (cleanItems f xs)). Q i"
  using assms by (induction xs) (auto split: prod.splits)





















end
